theory Spec2Isabelle
  imports Main
begin

section \<open>Python strings\<close>

text \<open>
  A Python \<open>str\<close> is a sequence of Unicode code points; it is modelled as the list of
  those code points, so that \<open>len\<close>, slicing and \<open>in\<close> count what Python counts.
  \<open>U\<close> turns an ASCII literal into such a list; code points outside printable ASCII are
  written as numbers.
\<close>

type_synonym ustr = "nat list"

definition U :: "string \<Rightarrow> ustr" where
  "U s = map of_char s"

text \<open>\<open>s.startswith(sub)\<close>.\<close>

fun py_startswith :: "ustr \<Rightarrow> ustr \<Rightarrow> bool" where
  "py_startswith [] s = True"
| "py_startswith (a # as) [] = False"
| "py_startswith (a # as) (b # bs) = (a = b \<and> py_startswith as bs)"

text \<open>\<open>sub in s\<close> on strings: \<open>sub\<close> occurs as a contiguous substring of \<open>s\<close>.\<close>

fun py_in :: "ustr \<Rightarrow> ustr \<Rightarrow> bool" where
  "py_in sub [] = (sub = [])"
| "py_in sub (c # cs) = (py_startswith sub (c # cs) \<or> py_in sub cs)"

text \<open>\<open>s.find(sub)\<close>; \<open>None\<close> stands for Python's \<open>-1\<close>.\<close>

fun py_find :: "ustr \<Rightarrow> ustr \<Rightarrow> nat option" where
  "py_find sub [] = (if sub = [] then Some 0 else None)"
| "py_find sub (c # cs) =
     (if py_startswith sub (c # cs) then Some 0 else map_option Suc (py_find sub cs))"

text \<open>
  \<open>str.lower()\<close>. Python lowers by the full Unicode case table; the model lowers the
  ASCII and Latin-1 capitals (all that Spanish text needs) and leaves every other code
  point as it is.
\<close>

definition lower_cp :: "nat \<Rightarrow> nat" where
  "lower_cp c = (if (65 \<le> c \<and> c \<le> 90) \<or> (192 \<le> c \<and> c \<le> 222 \<and> c \<noteq> 215)
                 then c + 32 else c)"

definition py_lower :: "ustr \<Rightarrow> ustr" where
  "py_lower s = map lower_cp s"

text \<open>The code points for which \<open>str.isspace()\<close> holds (also the class \<open>\s\<close> of \<open>re\<close>).\<close>

definition is_space :: "nat \<Rightarrow> bool" where
  "is_space c = ((9 \<le> c \<and> c \<le> 13) \<or> (28 \<le> c \<and> c \<le> 32) \<or> c = 133 \<or> c = 160
      \<or> c = 5760 \<or> (8192 \<le> c \<and> c \<le> 8202) \<or> c = 8232 \<or> c = 8233 \<or> c = 8239
      \<or> c = 8287 \<or> c = 12288)"

text \<open>\<open>s.strip()\<close>.\<close>

definition py_strip :: "ustr \<Rightarrow> ustr" where
  "py_strip s = rev (dropWhile is_space (rev (dropWhile is_space s)))"

text \<open>
  \<open>s.replace(old, new)\<close>: the occurrences of \<open>old\<close> are replaced from left to right
  without overlap. With an empty \<open>old\<close>, Python puts \<open>new\<close> before every character
  and at the end.
\<close>

fun py_replace :: "ustr \<Rightarrow> ustr \<Rightarrow> ustr \<Rightarrow> ustr" where
  "py_replace old new [] = (if old = [] then new else [])"
| "py_replace old new (c # cs) =
     (if old = [] then new @ c # py_replace old new cs
      else if py_startswith old (c # cs)
           then new @ py_replace old new (drop (length old - 1) cs)
           else c # py_replace old new cs)"

text \<open>
  \<open>s.split(sep)\<close> for a non-empty \<open>sep\<close> (the only use has the literal \<open>"PLAN:"\<close> or
  \<open>"Plan:"\<close>); the result is never empty.
\<close>

fun py_split :: "ustr \<Rightarrow> ustr \<Rightarrow> ustr list" where
  "py_split sep [] = [[]]"
| "py_split sep (c # cs) =
     (if py_startswith sep (c # cs) then [] # py_split sep (drop (length sep - 1) cs)
      else (case py_split sep cs of
              [] \<Rightarrow> [[c]]
            | p # ps \<Rightarrow> (c # p) # ps))"

text \<open>\<open>str(n)\<close> for an integer.\<close>

fun digitos :: "nat \<Rightarrow> ustr" where
  "digitos n = (if n < 10 then [48 + n] else digitos (n div 10) @ [48 + n mod 10])"

definition str_int :: "int \<Rightarrow> ustr" where
  "str_int i = (if i < 0 then 45 # digitos (nat (- i)) else digitos (nat i))"

section \<open>Python values\<close>

text \<open>
  The advisory payload and the visit records are untyped JSON-like values: \<open>None\<close>,
  booleans, integers, strings, lists and dicts with string keys. A dict is an association
  list in insertion order; \<open>map_of\<close> is the lookup. Floats are not represented.
\<close>

datatype json =
    JNull
  | JBool bool
  | JInt int
  | JStr ustr
  | JList "json list"
  | JDict "(ustr \<times> json) list"

type_synonym dict = "(ustr \<times> json) list"

text \<open>\<open>k in d\<close>, \<open>d.get(k)\<close> and \<open>d.get(k, default)\<close>.\<close>

definition tiene :: "dict \<Rightarrow> ustr \<Rightarrow> bool" where
  "tiene d k = (map_of d k \<noteq> None)"

definition get :: "dict \<Rightarrow> ustr \<Rightarrow> json" where
  "get d k = (case map_of d k of None \<Rightarrow> JNull | Some v \<Rightarrow> v)"

definition get_def :: "dict \<Rightarrow> ustr \<Rightarrow> json \<Rightarrow> json" where
  "get_def d k dflt = (case map_of d k of None \<Rightarrow> dflt | Some v \<Rightarrow> v)"

text \<open>Truthiness, and \<open>a or b\<close>, which yields \<open>a\<close> when it is truthy and \<open>b\<close> otherwise.\<close>

fun truthy :: "json \<Rightarrow> bool" where
  "truthy JNull = False"
| "truthy (JBool b) = b"
| "truthy (JInt i) = (i \<noteq> 0)"
| "truthy (JStr s) = (s \<noteq> [])"
| "truthy (JList l) = (l \<noteq> [])"
| "truthy (JDict d) = (d \<noteq> [])"

definition py_or :: "json \<Rightarrow> json \<Rightarrow> json" where
  "py_or a b = (if truthy a then a else b)"

text \<open>The exceptions the modelled code can raise.\<close>

datatype excepcion =
    AttributeError
  | TypeError
  | ErrorExterno ustr

section \<open>The normalizer: \<open>limpiar_respuesta_ia\<close> (ui_visita.py)\<close>

definition claves_planas :: "ustr list" where
  "claves_planas =
     [U ''farmaco'', U ''dosis_mg_kg'', U ''dosis_mg_kg_detectada'', U ''dosis_calculada'',
      U ''frecuencia'', U ''frecuencia_texto'', U ''frecuencia_horas'',
      U ''es_tratamiento_aij'', U ''es_aij'', U ''razon_decision'', U ''razon'']"

text \<open>The dict built by the flat branch of \<open>_normalizar_schema\<close>.\<close>

definition es_aij_plano :: "dict \<Rightarrow> json" where
  "es_aij_plano obj =
     (if get obj (U ''es_aij'') = JNull then get obj (U ''es_tratamiento_aij'')
      else get obj (U ''es_aij''))"

definition analisis_plano :: "dict \<Rightarrow> json" where
  "analisis_plano obj = JDict
     [(U ''farmaco'', get obj (U ''farmaco'')),
      (U ''dosis_calculada'', get obj (U ''dosis_calculada'')),
      (U ''dosis_mg_kg_detectada'',
         get_def obj (U ''dosis_mg_kg_detectada'') (get obj (U ''dosis_mg_kg''))),
      (U ''frecuencia'', get_def obj (U ''frecuencia'') (get obj (U ''frecuencia_texto''))),
      (U ''frecuencia_horas'', get obj (U ''frecuencia_horas''))]"

definition auditoria_plano :: "dict \<Rightarrow> json" where
  "auditoria_plano obj = JDict
     [(U ''es_aij'', es_aij_plano obj),
      (U ''es_tratamiento_aij'', get obj (U ''es_tratamiento_aij'')),
      (U ''razon'', get_def obj (U ''razon'') (get obj (U ''razon_decision''))),
      (U ''razon_decision'', get obj (U ''razon_decision''))]"

definition estado_plano :: "dict \<Rightarrow> json" where
  "estado_plano obj =
     (if \<not> truthy (get obj (U ''estado''))
      then (if es_aij_plano obj = JBool True then JStr (U ''Aprobada'') else JStr (U ''Alerta''))
      else get obj (U ''estado''))"

definition reformar_plano :: "dict \<Rightarrow> json" where
  "reformar_plano obj = JDict
     [(U ''estado'', estado_plano obj),
      (U ''analisis'', analisis_plano obj),
      (U ''auditoria'', auditoria_plano obj),
      (U ''decision'', py_or (get obj (U ''decision'')) (get obj (U ''severidad'')))]"

text \<open>
  The two tests of \<open>_normalizar_schema\<close>: the expected schema (one of the three top-level
  keys is present) and the flat schema (one of the flat keys is present).
\<close>

definition schema_esperado :: "dict \<Rightarrow> bool" where
  "schema_esperado obj =
     (tiene obj (U ''analisis'') \<or> tiene obj (U ''auditoria'') \<or> tiene obj (U ''estado''))"

definition schema_plano :: "dict \<Rightarrow> bool" where
  "schema_plano obj = list_ex (tiene obj) claves_planas"

text \<open>\<open>_normalizar_schema\<close>: \<open>None\<close> for a value that is not a dict.\<close>

definition normalizar_schema :: "json \<Rightarrow> json option" where
  "normalizar_schema obj =
     (case obj of
        JDict d \<Rightarrow>
          if schema_esperado d then Some obj
          else if schema_plano d then Some (reformar_plano d)
          else Some obj
      | _ \<Rightarrow> None)"

text \<open>
  The argument of \<open>limpiar_respuesta_ia\<close>: \<open>None\<close>, a dict, or any other object. Of another
  object the code reads the attribute \<open>raw\<close> (a string) when it has one, the attribute
  \<open>json_dict\<close> when it has one, and its \<open>str()\<close>. A plain string \<open>s\<close> is
  \<open>ROtro None None s\<close>.
\<close>

datatype respuesta =
    RNone
  | RDict dict
  | ROtro (raw: "ustr option") (json_dict: "json option") (str_de: ustr)

definition respaldo :: "ustr \<Rightarrow> json" where
  "respaldo texto_raw = JDict
     [(U ''estado'', JStr (U ''Nota del Asistente'')),
      (U ''analisis'', JDict [(U ''farmaco'', JStr (U ''Ver texto'')),
                              (U ''dosis_calculada'', JStr (U ''-''))]),
      (U ''auditoria'', JDict [(U ''es_aij'', JNull),
         (U ''razon'', JStr (py_strip (py_replace (U ''```'') []
                          (py_replace (U ''```json'') [] (py_replace (U ''**'') [] texto_raw)))))])]"

text \<open>
  Step 2 of \<open>limpiar_respuesta_ia\<close>. \<open>repair_json\<close> belongs to the library json_repair and is
  a parameter: it returns an object or raises (\<open>Inl\<close>), and whatever it raises is caught.
\<close>

definition reparar :: "(ustr \<Rightarrow> excepcion + json) \<Rightarrow> ustr \<Rightarrow> json" where
  "reparar repair_json texto_raw =
     (case repair_json texto_raw of
        Inr (JList (x # xs)) \<Rightarrow>
          (case normalizar_schema x of Some n \<Rightarrow> n | None \<Rightarrow> x)
      | Inr (JDict d) \<Rightarrow>
          (case normalizar_schema (JDict d) of Some n \<Rightarrow> n | None \<Rightarrow> JDict d)
      | _ \<Rightarrow> respaldo texto_raw)"

definition limpiar_respuesta_ia :: "(ustr \<Rightarrow> excepcion + json) \<Rightarrow> respuesta \<Rightarrow> json" where
  "limpiar_respuesta_ia repair_json respuesta_obj =
     (case respuesta_obj of
        RNone \<Rightarrow>
          JDict [(U ''estado'', JStr (U ''Error'')), (U ''analisis'', JDict []),
                 (U ''auditoria'', JDict [(U ''razon'', JStr (U ''No hay respuesta''))])]
      | RDict d \<Rightarrow>
          (case normalizar_schema (JDict d) of Some n \<Rightarrow> n | None \<Rightarrow> JDict d)
      | ROtro (Some texto) jd s \<Rightarrow> reparar repair_json texto
      | ROtro None (Some j) s \<Rightarrow>
          if truthy j then (case normalizar_schema j of Some n \<Rightarrow> n | None \<Rightarrow> j)
          else reparar repair_json s
      | ROtro None None s \<Rightarrow> reparar repair_json s)"

section \<open>The classifier: the display logic of \<open>render_nueva_visita\<close> (ui_visita.py)\<close>

text \<open>
  \<open>json.dumps(value, ensure_ascii=False)\<close>: the separators are \<open>", "\<close> and \<open>": "\<close>; inside
  a string the quote, the backslash and the control characters are escaped and every
  other code point is written as it is.
\<close>

definition hex_digito :: "nat \<Rightarrow> nat" where
  "hex_digito n = (if n < 10 then 48 + n else 87 + n)"

definition escapar_cp :: "nat \<Rightarrow> ustr" where
  "escapar_cp c =
     (if c = 34 then [92, 34]
      else if c = 92 then [92, 92]
      else if c = 10 then [92, 110]
      else if c = 13 then [92, 114]
      else if c = 9 then [92, 116]
      else if c = 8 then [92, 98]
      else if c = 12 then [92, 102]
      else if c < 32 then [92, 117, 48, 48, hex_digito (c div 16), hex_digito (c mod 16)]
      else [c])"

definition dumps_str :: "ustr \<Rightarrow> ustr" where
  "dumps_str s = [34] @ concat (map escapar_cp s) @ [34]"

fun intercalar :: "ustr \<Rightarrow> ustr list \<Rightarrow> ustr" where
  "intercalar sep [] = []"
| "intercalar sep [x] = x"
| "intercalar sep (x # y # ys) = x @ sep @ intercalar sep (y # ys)"

fun json_dumps :: "json \<Rightarrow> ustr" where
  "json_dumps JNull = U ''null''"
| "json_dumps (JBool b) = (if b then U ''true'' else U ''false'')"
| "json_dumps (JInt i) = str_int i"
| "json_dumps (JStr s) = dumps_str s"
| "json_dumps (JList l) = [91] @ intercalar (U '', '') (map json_dumps l) @ [93]"
| "json_dumps (JDict d) =
     [123] @ intercalar (U '', '')
               (map (\<lambda>kv. dumps_str (fst kv) @ U '': '' @ json_dumps (snd kv)) d) @ [125]"

text \<open>\<open>_coerce_text\<close>; for a value that is neither a dict nor a list it is \<open>str(value)\<close>.\<close>

definition coerce_text :: "json \<Rightarrow> ustr \<Rightarrow> ustr" where
  "coerce_text v dflt =
     (case v of
        JNull \<Rightarrow> dflt
      | JDict d \<Rightarrow> json_dumps v
      | JList l \<Rightarrow> json_dumps v
      | JStr s \<Rightarrow> s
      | JBool b \<Rightarrow> (if b then U ''True'' else U ''False'')
      | JInt i \<Rightarrow> str_int i)"

definition palabras_rechazo :: "ustr list" where
  "palabras_rechazo =
     [U ''contraind'', U ''contraindicad'', U ''no indicado'', U ''no indicada'',
      U ''no recomendado'', U ''no recomendada'', U ''no usar'', U ''no se recomienda'',
      U ''toxic'', U ''toxicidad'', U ''sobredos'', U ''sobredosis'', U ''dosis alta'',
      U ''dosis excesiva'', U ''exceso'', U ''excesiva'']"

definition es_rechazo_por_texto :: "ustr \<Rightarrow> bool" where
  "es_rechazo_por_texto razon_texto =
     (let texto = py_lower (if razon_texto \<noteq> [] then razon_texto else [])
      in list_ex (\<lambda>p. py_in p texto) palabras_rechazo)"

datatype veredicto = Aprobada | Rechazada | Alerta

text \<open>The three places where an approval is looked for (\<open>es_valido\<close>).\<close>

definition es_valido :: "dict \<Rightarrow> dict \<Rightarrow> bool" where
  "es_valido res auditoria =
     (get_def res (U ''estado'') (JStr (U ''Desconocido'')) = JStr (U ''Aprobada'')
      \<or> get auditoria (U ''es_tratamiento_aij'') = JBool True
      \<or> get auditoria (U ''es_aij'') = JBool True)"

definition decision_txt :: "dict \<Rightarrow> dict \<Rightarrow> ustr" where
  "decision_txt res auditoria =
     (let decision_raw = py_or (py_or (get res (U ''decision'')) (get res (U ''severidad'')))
                               (get auditoria (U ''decision''))
      in py_lower (py_strip (coerce_text decision_raw [])))"

definition razon_texto_de :: "dict \<Rightarrow> dict \<Rightarrow> ustr" where
  "razon_texto_de res auditoria =
     coerce_text
       (py_or (py_or (py_or (py_or (get auditoria (U ''razon_decision''))
                                   (get auditoria (U ''razon'')))
                            (get res (U ''razon_decision'')))
                     (get res (U ''razon'')))
              (JStr []))
       (U ''-'')"

definition decidir :: "dict \<Rightarrow> dict \<Rightarrow> veredicto" where
  "decidir res auditoria =
     (let txt = decision_txt res auditoria in
      if py_in (U ''aprob'') txt then Aprobada
      else if py_in (U ''rech'') txt then Rechazada
      else if py_in (U ''alert'') txt then Alerta
      else if es_valido res auditoria then Aprobada
      else if es_rechazo_por_texto (razon_texto_de res auditoria) then Rechazada
      else Alerta)"

text \<open>
  The verdict \<open>decision\<close> computed from the cached result \<open>res\<close>. \<open>res.get\<close> and
  \<open>auditoria.get\<close> raise \<open>AttributeError\<close> on a value that is not a dict; a missing
  \<open>auditoria\<close> is the empty dict.
\<close>

definition clasificar :: "json \<Rightarrow> excepcion + veredicto" where
  "clasificar res =
     (case res of
        JDict r \<Rightarrow>
          (case get_def r (U ''auditoria'') (JDict []) of
             JDict auditoria \<Rightarrow> Inr (decidir r auditoria)
           | _ \<Rightarrow> Inl AttributeError)
      | _ \<Rightarrow> Inl AttributeError)"

section \<open>The medication extractor: \<open>_extraer_medicaciones_del_plan\<close> (patient_bot.py)\<close>

text \<open>The table \<open>medicamentos_info\<close>, in its order: name, variants, emoji.\<close>

definition medicamentos_info :: "(ustr \<times> ustr list \<times> ustr) list" where
  "medicamentos_info =
     [(U ''Metotrexato'', [U ''metotrexato'', U ''metotrexate'', U ''mtx''], [128137]),
      ([193] @ U ''cido F'' @ [243] @ U ''lico'',
         [[225] @ U ''cido f'' @ [243] @ U ''lico'', U ''acido folico'',
          U ''ac f'' @ [243] @ U ''lico'', U ''ac folico'', U ''acfol''], [128138]),
      (U ''Ibuprofeno'', [U ''ibuprofeno'', U ''ibuprofen''], [128138]),
      (U ''Naproxeno'', [U ''naproxeno''], [128138]),
      (U ''Prednisona'', [U ''prednisona'', U ''prednisone'', U ''corticoide''], [128138]),
      (U ''Adalimumab (Humira)'', [U ''adalimumab'', U ''humira''], [128137]),
      (U ''Tocilizumab'', [U ''tocilizumab'', U ''actemra''], [128137]),
      (U ''Etanercept'', [U ''etanercept'', U ''enbrel''], [128137])]"

text \<open>
  The pattern \<open>{variante}[^\d]*(\d+(?:[.,]\d+)?)\s*mg\<close>. Each piece maps a text to the
  texts that can remain after it, in the order in which the backtracking matcher of \<open>re\<close>
  tries them (a greedy repetition tries the longest first). \<open>\d\<close> is taken as the ASCII
  digits; the other decimal digits of Unicode are not modelled.
\<close>

definition es_digito :: "nat \<Rightarrow> bool" where
  "es_digito c = (48 \<le> c \<and> c \<le> 57)"

fun re_star :: "(nat \<Rightarrow> bool) \<Rightarrow> ustr \<Rightarrow> ustr list" where
  "re_star P [] = [[]]"
| "re_star P (c # cs) = (if P c then re_star P cs @ [c # cs] else [c # cs])"

definition re_plus :: "(nat \<Rightarrow> bool) \<Rightarrow> ustr \<Rightarrow> ustr list" where
  "re_plus P s = (case s of [] \<Rightarrow> [] | c # cs \<Rightarrow> if P c then re_star P cs else [])"

definition re_clase :: "(nat \<Rightarrow> bool) \<Rightarrow> ustr \<Rightarrow> ustr list" where
  "re_clase P s = (case s of [] \<Rightarrow> [] | c # cs \<Rightarrow> if P c then [cs] else [])"

definition re_lit :: "ustr \<Rightarrow> ustr \<Rightarrow> ustr list" where
  "re_lit lit s = (if py_startswith lit s then [drop (length lit) s] else [])"

text \<open>The optional group \<open>(?:[.,]\d+)?\<close>: first with the group, then without it.\<close>

definition re_decimales :: "ustr \<Rightarrow> ustr list" where
  "re_decimales s =
     [r. rc \<leftarrow> re_clase (\<lambda>c. c = 46 \<or> c = 44) s, r \<leftarrow> re_plus es_digito rc] @ [s]"

text \<open>Group 1 of every match of the pattern that starts at the head of \<open>s\<close>.\<close>

definition patron_dosis_en :: "ustr \<Rightarrow> ustr \<Rightarrow> ustr list" where
  "patron_dosis_en variante s =
     [take (length r2 - length r4) r2.
        r1 \<leftarrow> re_lit variante s,
        r2 \<leftarrow> re_star (\<lambda>c. \<not> es_digito c) r1,
        r3 \<leftarrow> re_plus es_digito r2,
        r4 \<leftarrow> re_decimales r3,
        r5 \<leftarrow> re_star is_space r4,
        r6 \<leftarrow> re_lit (U ''mg'') r5]"

text \<open>\<open>re.search\<close>: the first match at the leftmost position that has one.\<close>

fun re_search_dosis :: "ustr \<Rightarrow> ustr \<Rightarrow> ustr option" where
  "re_search_dosis variante [] =
     (case patron_dosis_en variante [] of g # gs \<Rightarrow> Some g | [] \<Rightarrow> None)"
| "re_search_dosis variante (c # cs) =
     (case patron_dosis_en variante (c # cs) of
        g # gs \<Rightarrow> Some g
      | [] \<Rightarrow> re_search_dosis variante cs)"

definition dosis_de :: "ustr \<Rightarrow> ustr \<Rightarrow> ustr" where
  "dosis_de variante texto_lower =
     (case re_search_dosis variante texto_lower of
        Some g \<Rightarrow> g @ U '' mg''
      | None \<Rightarrow> [])"

definition contexto_de :: "ustr \<Rightarrow> ustr \<Rightarrow> ustr" where
  "contexto_de variante texto_lower =
     (case py_find variante texto_lower of
        Some idx \<Rightarrow> take 100 (drop idx texto_lower)
      | None \<Rightarrow> [])"

definition dias :: "ustr list" where
  "dias =
   [U ''lunes'',
    U ''martes'',
    U ''mi'' @ [233] @ U ''rcoles'',
    U ''jueves'',
    U ''viernes'',
    U ''s'' @ [225] @ U ''bado'',
    U ''domingo'']"

definition frecuencia_de :: "ustr \<Rightarrow> ustr" where
  "frecuencia_de contexto =
     (if py_in (U ''semanal'') contexto then U ''semanal''
      else if py_in (U ''diario'') contexto \<or> py_in (U ''cada d'' @ [237] @ U ''a'') contexto
              \<or> py_in (U ''/d'' @ [237] @ U ''a'') contexto then U ''diario''
      else if py_in (U ''quincenal'') contexto \<or> py_in (U ''cada 2 semanas'') contexto
           then U ''cada 2 semanas''
      else if py_in (U ''cada 8 horas'') contexto then U ''cada 8 horas''
      else if py_in (U ''cada 12 horas'') contexto then U ''cada 12 horas''
      else (case find (\<lambda>dia. py_in dia contexto) dias of
              Some dia \<Rightarrow> U ''los '' @ dia @ U ''s''
            | None \<Rightarrow> []))"

definition med_str_de :: "ustr \<Rightarrow> ustr \<Rightarrow> ustr \<Rightarrow> ustr \<Rightarrow> ustr" where
  "med_str_de emoji med_nombre dosis frecuencia =
     emoji @ U '' **'' @ med_nombre @ U ''**''
       @ (if dosis \<noteq> [] then U '' '' @ dosis else [])
       @ (if frecuencia \<noteq> [] then U '' ('' @ frecuencia @ U '')'' else [])"

text \<open>
  One turn of the loop over the table: the first variant that occurs in the text gives
  the line of the drug, and the other variants are not looked at.
\<close>

definition paso_medicamento :: "ustr \<Rightarrow> ustr list \<Rightarrow> ustr \<times> ustr list \<times> ustr \<Rightarrow> ustr list" where
  "paso_medicamento texto_lower medicaciones med =
     (case med of (med_nombre, variantes, emoji) \<Rightarrow>
        (case find (\<lambda>variante. py_in variante texto_lower) variantes of
           None \<Rightarrow> medicaciones
         | Some variante \<Rightarrow>
             (let med_str = med_str_de emoji med_nombre (dosis_de variante texto_lower)
                              (frecuencia_de (contexto_de variante texto_lower))
              in if med_str \<in> set medicaciones then medicaciones
                 else medicaciones @ [med_str])))"

definition extraer_medicaciones_del_plan :: "ustr \<Rightarrow> ustr list option" where
  "extraer_medicaciones_del_plan plan_texto =
     (if plan_texto = [] then None
      else (let medicaciones = foldl (paso_medicamento (py_lower plan_texto)) []
                                 medicamentos_info
            in if medicaciones = [] then None else Some medicaciones))"

section \<open>The responder: \<open>responder_duda_paciente\<close> (patient_bot.py)\<close>

definition saludos :: "ustr list" where
  "saludos =
   [U ''hola'',
    U ''buenas'',
    U ''gracias'',
    U ''qu'' @ [233] @ U '' tal'',
    U ''buenos d'' @ [237] @ U ''as'',
    U ''buenas tardes'']"

definition saludo_pre :: ustr where
  "saludo_pre =
   [161] @ U ''Hola ''"

definition saludo_post :: ustr where
  "saludo_post =
   U ''! Soy tu asistente virtual de la unidad. Estoy aqu'' @ [237]
   @ U '' para ayudarte con cualquier duda sobre tu tratamiento o med'' @ U ''icaci''
   @ [243] @ U ''n.''"

definition palabras_urgencia :: "ustr list" where
  "palabras_urgencia =
   [U ''dolor fuerte'',
    U ''sangre'',
    U ''fiebre alta'',
    U ''hinchado'',
    U ''ahogo'',
    U ''urgencia'',
    U ''pecho'']"

definition texto_urgencia :: ustr where
  "texto_urgencia =
   [9888, 65039] @ U '' **DETECTADO S'' @ [205] @ U ''NTOMA DE ALERTA**'' @ [10, 10]
   @ U ''Como asistente virtual no puedo valorar urgencias m'' @ [233]
   @ U ''dicas. Por favor, acude al hospital o contacta con tu reumat'' @ [243]
   @ U ''logo inmediatamente.''"

definition palabras_olvido :: "ustr list" where
  "palabras_olvido =
   [U ''olvid'' @ [233],
    U ''olvide'',
    U ''olvidado'',
    U ''perd'' @ [237],
    U ''perdi'',
    U ''perdido'',
    U ''no me pinch'' @ [233],
    U ''no me pinche'',
    U ''no tom'' @ [233],
    U ''no tome'',
    U ''salt'' @ [233],
    U ''salte'',
    U ''saltado'',
    U ''me la salt'' @ [233],
    U ''se me pas'' @ [243],
    U ''ayer no'',
    U ''no puse'',
    U ''qu'' @ [233] @ U '' hago'',
    U ''que hago'',
    U ''me olvide'']"

definition variantes_metotrexato :: "ustr list" where
  "variantes_metotrexato =
   [U ''metotrexato'',
    U ''metotrexate'',
    U ''mtx'']"

definition texto_olvido_metotrexato :: ustr where
  "texto_olvido_metotrexato =
   [9888, 65039] @ U '' **Dosis olvidada de Metotrexato**'' @ [10, 10]
   @ U ''**Regla general:** Si te olvidaste ayer, puedes pon'' @ [233]
   @ U ''rtela hoy (dentro de las 48h siguientes al d'' @ [237] @ U ''a pautado).''
   @ [10, 10, 128204] @ U '' **Recomendaciones:**'' @ [10, 8226]
   @ U '' Si han pasado **menos de 2 d'' @ [237]
   @ U ''as**: Ponte la dosis hoy y sigue con tu calendario normal la'' @ U '' pr'' @ [243]
   @ U ''xima semana.'' @ [10, 8226] @ U '' Si han pasado **m'' @ [225] @ U ''s de 2 d''
   @ [237] @ U ''as**: NO te pongas doble dosis. Salta esta semana y contin'' @ [250]
   @ U ''a la pr'' @ [243] @ U ''xima seg'' @ [250] @ U ''n tu pauta habitual.''
   @ [10, 10, 9888, 65039]
   @ U '' **Importante:** Si tienes dudas o esto ocurre con frecuenci''
   @ U ''a, consulta con tu reumat'' @ [243] @ U ''logo.'' @ [10, 10, 128161]
   @ U '' Consejo: Activa recordatorios en tu m'' @ [243] @ U ''vil para el d'' @ [237]
   @ U ''a que te toca.''"

definition variantes_folico :: "ustr list" where
  "variantes_folico =
   [[225] @ U ''cido f'' @ [243] @ U ''lico'',
    U ''acido folico'',
    U ''f'' @ [243] @ U ''lico'',
    U ''folico'',
    U ''acfol'']"

definition texto_olvido_folico :: ustr where
  "texto_olvido_folico =
   [128138] @ U '' **Dosis olvidada de '' @ [193] @ U ''cido F'' @ [243] @ U ''lico**''
   @ [10, 10] @ U ''No te preocupes, el '' @ [225] @ U ''cido f'' @ [243]
   @ U ''lico es un suplemento y no pasa nada grave si te saltas una '' @ U ''dosis.''
   @ [10, 10, 128204] @ U '' **Recomendaciones:**'' @ [10, 8226] @ U '' T'' @ [243]
   @ U ''malo cuando te acuerdes si es el mismo d'' @ [237] @ U ''a.'' @ [10, 8226]
   @ U '' Si ya pas'' @ [243] @ U '' el d'' @ [237] @ U ''a, simplemente contin'' @ [250]
   @ U ''a con la siguiente dosis programada.'' @ [10, 8226]
   @ U '' **Nunca tomes doble dosis** para compensar.''"

definition variantes_humira :: "ustr list" where
  "variantes_humira =
   [U ''humira'',
    U ''adalimumab'']"

definition texto_olvido_humira :: ustr where
  "texto_olvido_humira =
   [128137] @ U '' **Dosis olvidada de Humira/Adalimumab**'' @ [10, 10, 128204]
   @ U '' **Recomendaciones:**'' @ [10, 8226] @ U '' Si te acuerdas **en los primeros d''
   @ [237] @ U ''as**, ponte la inyecci'' @ [243] @ U ''n cuanto antes.'' @ [10, 8226]
   @ U '' Luego, ajusta tu calendario para mantener el intervalo de 2'' @ U '' semanas.''
   @ [10, 8226] @ U '' **No te pongas doble dosis.**'' @ [10, 10, 9888, 65039]
   @ U '' Si tienes dudas, contacta con tu reumat'' @ [243]
   @ U ''logo o enfermera de la unidad.''"

definition texto_olvido_generico :: ustr where
  "texto_olvido_generico =
   [9888, 65039] @ U '' **Dosis olvidada de medicaci'' @ [243] @ U ''n**''
   @ [10, 10, 128204] @ U '' **Regla general:**'' @ [10, 8226]
   @ U '' Si te acuerdas el mismo d'' @ [237] @ U ''a o al d'' @ [237]
   @ U ''a siguiente, t'' @ [243] @ U ''mala/ponla cuando te acuerdes.'' @ [10, 8226]
   @ U '' Si han pasado m'' @ [225] @ U ''s de 2 d'' @ [237]
   @ U ''as, **no tomes doble dosis**. Espera a la siguiente dosis pr'' @ U ''ogramada.''
   @ [10, 10, 9888, 65039] @ U '' Si tienes dudas sobre tu medicamento espec'' @ [237]
   @ U ''fico, consulta con tu reumat'' @ [243] @ U ''logo o llama a la unidad.''"

definition palabras_medicacion :: "ustr list" where
  "palabras_medicacion =
   [U ''medicaci'' @ [243] @ U ''n'',
    U ''medicacion'',
    U ''medicamento'',
    U ''tratamiento'',
    U ''llevo'',
    U ''tomo'',
    U ''actual'',
    U ''ahora'',
    U ''qu'' @ [233] @ U '' tomo'',
    U ''que tomo'',
    U ''dosis'',
    U ''pauta'',
    U ''inyectar'',
    U ''pinchar'',
    U ''pastilla'']"

definition texto_medicacion_pre :: ustr where
  "texto_medicacion_pre =
   [128138] @ U '' **Tu medicaci'' @ [243] @ U ''n actual:**'' @ [10, 10]"

definition texto_medicacion_post :: ustr where
  "texto_medicacion_post =
   [10, 128197] @ U '' Puedes ver el calendario en la pesta'' @ [241] @ U ''a '' @ [39]
   @ U ''Mi Calendario'' @ [39] @ U '' para ver cu'' @ [225]
   @ U ''ndo te toca cada medicaci'' @ [243] @ U ''n.''"

definition texto_plan_pre :: ustr where
  "texto_plan_pre =
   [128203] @ U '' **Tu plan de tratamiento actual:**'' @ [10, 10]"

definition texto_sin_plan :: ustr where
  "texto_sin_plan =
   [128203] @ U '' No tienes ning'' @ [250]
   @ U ''n plan de tratamiento activo. Consulta con tu m'' @ [233] @ U ''dico en la pr''
   @ [243] @ U ''xima visita.''"

definition palabras_cita :: "ustr list" where
  "palabras_cita =
   [U ''cita'',
    U ''pr'' @ [243] @ U ''xima visita'',
    U ''proxima visita'',
    U ''cuando tengo'',
    U ''revisi'' @ [243] @ U ''n'',
    U ''revision'']"

definition texto_cita :: ustr where
  "texto_cita =
   [128197] @ U '' Las citas se gestionan a trav'' @ [233] @ U ''s de la secretar'' @ [237]
   @ U ''a del hospital. Puedes llamar al tel'' @ [233] @ U ''fono de atenci'' @ [243]
   @ U ''n o consultar tu portal del paciente para ver tus pr'' @ [243]
   @ U ''ximas citas.''"

definition texto_rag_pre :: ustr where
  "texto_rag_pre =
   [128218] @ U '' **Informaci'' @ [243] @ U ''n general:**'' @ [10, 10]"

definition texto_fallback :: ustr where
  "texto_fallback =
   [10067] @ U '' No tengo informaci'' @ [243] @ U ''n espec'' @ [237]
   @ U ''fica sobre eso. Si tienes dudas sobre tu tratamiento, te rec''
   @ U ''omiendo consultarlo con tu m'' @ [233] @ U ''dico en la pr'' @ [243]
   @ U ''xima visita o llamar a la unidad.''"

text \<open>
  The value of \<open>ultimo_plan\<close> read from the last visit (\<open>JNull\<close> is \<open>None\<close>). On a
  \<open>curso_clinico_generado\<close> that is not a string, \<open>in\<close> raises \<open>TypeError\<close> for
  \<open>None\<close>, a boolean or a number and tests membership for a list or a dict, whose
  \<open>split\<close> then raises \<open>AttributeError\<close>.
\<close>

definition plan_de_curso :: "json \<Rightarrow> excepcion + json" where
  "plan_de_curso curso =
     (case curso of
        JStr c \<Rightarrow>
          if py_in (U ''PLAN:'') c then Inr (JStr (py_strip (last (py_split (U ''PLAN:'') c))))
          else if py_in (U ''Plan:'') c
               then Inr (JStr (py_strip (last (py_split (U ''Plan:'') c))))
               else Inr curso
      | JList l \<Rightarrow>
          if JStr (U ''PLAN:'') \<in> set l \<or> JStr (U ''Plan:'') \<in> set l
          then Inl AttributeError else Inr curso
      | JDict d \<Rightarrow>
          if tiene d (U ''PLAN:'') \<or> tiene d (U ''Plan:'')
          then Inl AttributeError else Inr curso
      | _ \<Rightarrow> Inl TypeError)"

definition plan_de_ultima :: "json list \<Rightarrow> excepcion + json" where
  "plan_de_ultima historial_paciente =
     (if historial_paciente = [] then Inr JNull
      else (case last historial_paciente of
              JDict ultimo \<Rightarrow>
                (let plan_directo = get_def ultimo (U ''plan_tratamiento'') (JStr [])
                 in if \<not> truthy plan_directo
                    then plan_de_curso (get_def ultimo (U ''curso_clinico_generado'') (JStr []))
                    else Inr plan_directo)
            | _ \<Rightarrow> Inr JNull))"

text \<open>Branch 3: the current medication. \<open>plan_texto.lower()\<close> raises on a plan that is
  not a string.\<close>

definition respuesta_medicacion :: "json list \<Rightarrow> excepcion + ustr" where
  "respuesta_medicacion historial_paciente =
     (case plan_de_ultima historial_paciente of
        Inl e \<Rightarrow> Inl e
      | Inr ultimo_plan \<Rightarrow>
          if truthy ultimo_plan then
            (case ultimo_plan of
               JStr plan \<Rightarrow>
                 (case extraer_medicaciones_del_plan plan of
                    Some medicaciones \<Rightarrow>
                      Inr (texto_medicacion_pre
                           @ concat (map (\<lambda>med. [8226, 32] @ med @ [10]) medicaciones)
                           @ texto_medicacion_post)
                  | None \<Rightarrow> Inr (texto_plan_pre @ plan))
             | _ \<Rightarrow> Inl AttributeError)
          else Inr texto_sin_plan)"

text \<open>
  The knowledge lookup is a collaborator (rag_engine), given by what the responder sees of
  it: whether the import succeeded, what \<open>cargar_conocimiento()\<close> does (it raises, or
  returns \<open>None\<close> or a store) and what \<open>consultar_rag\<close> does. The session's
  \<open>vectorstore_cache\<close> is passed in and returned; a store is truthy.
\<close>

record 'h rag =
  RAG_DISPONIBLE :: bool
  cargar_conocimiento :: "excepcion + 'h option"
  consultar_rag :: "'h \<Rightarrow> ustr \<Rightarrow> excepcion + ustr"

text \<open>Branch 5, after the store is at hand: the query is inside \<open>try\<close>.\<close>

definition respuesta_rag_de :: "'h rag \<Rightarrow> 'h option \<Rightarrow> ustr \<Rightarrow> ustr" where
  "respuesta_rag_de r vectorstore_cache pregunta =
     (case vectorstore_cache of
        None \<Rightarrow> U ''NO_CONTEXT''
      | Some vs \<Rightarrow>
          (case consultar_rag r vs pregunta of
             Inl e \<Rightarrow> U ''NO_CONTEXT''
           | Inr raw_response \<Rightarrow>
               if \<not> py_in (U ''NO_CONTEXT'') raw_response \<and> length raw_response > 5
               then raw_response else U ''NO_CONTEXT''))"

definition final_de :: "ustr \<Rightarrow> ustr" where
  "final_de respuesta_rag =
     (if respuesta_rag \<noteq> U ''NO_CONTEXT'' then texto_rag_pre @ respuesta_rag
      else texto_fallback)"

text \<open>Branches 5 and 6. \<open>cargar_conocimiento()\<close> is called outside \<open>try\<close>.\<close>

definition consulta_rag :: "'h rag \<Rightarrow> 'h option \<Rightarrow> ustr \<Rightarrow> (excepcion + ustr) \<times> 'h option" where
  "consulta_rag r vectorstore_cache pregunta =
     (if RAG_DISPONIBLE r then
        (case vectorstore_cache of
           None \<Rightarrow>
             (case cargar_conocimiento r of
                Inl e \<Rightarrow> (Inl e, None)
              | Inr vs \<Rightarrow> (Inr (final_de (respuesta_rag_de r vs pregunta)), vs))
         | Some vs \<Rightarrow>
             (Inr (final_de (respuesta_rag_de r vectorstore_cache pregunta)), vectorstore_cache))
      else (Inr texto_fallback, vectorstore_cache))"

definition respuesta_olvido :: "ustr \<Rightarrow> ustr" where
  "respuesta_olvido p =
     (if list_ex (\<lambda>x. py_in x p) variantes_metotrexato then texto_olvido_metotrexato
      else if list_ex (\<lambda>x. py_in x p) variantes_folico then texto_olvido_folico
      else if list_ex (\<lambda>x. py_in x p) variantes_humira then texto_olvido_humira
      else texto_olvido_generico)"

text \<open>The greeting, an f-string around the patient's name.\<close>

definition saludo :: "ustr \<Rightarrow> ustr" where
  "saludo nombre_paciente = saludo_pre @ nombre_paciente @ saludo_post"

text \<open>The result is what is returned or raised, and the cache after the call.\<close>

definition responder_duda_paciente ::
    "'h rag \<Rightarrow> 'h option \<Rightarrow> ustr \<Rightarrow> json list \<Rightarrow> ustr \<Rightarrow> (excepcion + ustr) \<times> 'h option" where
  "responder_duda_paciente r vectorstore_cache pregunta historial_paciente nombre_paciente =
     (let p = py_lower pregunta in
      if p \<in> set saludos then (Inr (saludo nombre_paciente), vectorstore_cache)
      else if list_ex (\<lambda>x. py_in x p) palabras_urgencia
           then (Inr texto_urgencia, vectorstore_cache)
      else if list_ex (\<lambda>x. py_in x p) palabras_olvido
           then (Inr (respuesta_olvido p), vectorstore_cache)
      else if list_ex (\<lambda>x. py_in x p) palabras_medicacion
           then (respuesta_medicacion historial_paciente, vectorstore_cache)
      else if list_ex (\<lambda>x. py_in x p) palabras_cita then (Inr texto_cita, vectorstore_cache)
      else consulta_rag r vectorstore_cache pregunta)"

section \<open>Vocabulary of the properties and example inputs\<close>

text \<open>A value is a dict whose \<open>estado\<close>, \<open>analisis\<close> and \<open>auditoria\<close> are present and
  not \<open>None\<close>.\<close>

definition claves_presentes :: "json \<Rightarrow> bool" where
  "claves_presentes j =
     (case j of
        JDict d \<Rightarrow> get d (U ''estado'') \<noteq> JNull \<and> get d (U ''analisis'') \<noteq> JNull
                   \<and> get d (U ''auditoria'') \<noteq> JNull
      | _ \<Rightarrow> False)"

text \<open>The field \<open>k\<close> of a returned value (\<open>None\<close> when it is not a dict).\<close>

definition campo :: "json \<Rightarrow> ustr \<Rightarrow> json" where
  "campo j k = (case j of JDict d \<Rightarrow> get d k | _ \<Rightarrow> JNull)"

definition dict_plano :: dict where
  "dict_plano = [(U ''farmaco'', JStr (U ''Metotrexato'')), (U ''es_aij'', JBool True)]"

text \<open>The JSON text of \<open>dict_plano\<close>.\<close>

definition texto_json :: ustr where
  "texto_json = [123, 34] @ U ''farmaco'' @ [34] @ U '': '' @ [34] @ U ''Metotrexato'' @ [34]
     @ U '', '' @ [34] @ U ''es_aij'' @ [34] @ U '': true}''"

text \<open>
  An instance of \<open>repair_json\<close> for the examples, fixed on the three texts they use. All
  three are valid JSON, where the library returns what \<open>json.loads\<close> returns: the dict
  for \<open>texto_json\<close>, the list for \<open>"[1, 2]"\<close> and the number for \<open>"1"\<close>. No example
  applies it to another text; the value given there is the library's answer on an empty
  text.
\<close>

definition repair_ejemplo :: "ustr \<Rightarrow> excepcion + json" where
  "repair_ejemplo s =
     (if s = texto_json then Inr (JDict dict_plano)
      else if s = U ''[1, 2]'' then Inr (JList [JInt 1, JInt 2])
      else if s = U ''1'' then Inr (JInt 1)
      else Inr (JStr []))"

definition dict_plano_con_estado :: dict where
  "dict_plano_con_estado =
     [(U ''farmaco'', JStr (U ''Metotrexato'')), (U ''es_aij'', JBool True),
      (U ''estado'', JStr (U ''Alerta''))]"

definition dict_solo_estado :: dict where
  "dict_solo_estado = [(U ''estado'', JStr (U ''Aprobada''))]"

definition dict_reformado :: dict where
  "dict_reformado =
     [(U ''estado'', JStr (U ''Aprobada'')),
      (U ''analisis'', JDict
         [(U ''farmaco'', JStr (U ''Metotrexato'')), (U ''dosis_calculada'', JNull),
          (U ''dosis_mg_kg_detectada'', JNull), (U ''frecuencia'', JNull),
          (U ''frecuencia_horas'', JNull)]),
      (U ''auditoria'', JDict
         [(U ''es_aij'', JBool True), (U ''es_tratamiento_aij'', JNull),
          (U ''razon'', JNull), (U ''razon_decision'', JNull)]),
      (U ''decision'', JNull)]"

definition dict_aij_falso :: dict where
  "dict_aij_falso = [(U ''es_aij'', JBool False), (U ''es_tratamiento_aij'', JBool True)]"

definition dict_aij_ausente :: dict where
  "dict_aij_ausente = [(U ''es_tratamiento_aij'', JBool True)]"

text \<open>Two collaborators: one whose import failed, one whose store cannot be loaded.\<close>

definition rag_ausente :: "unit rag" where
  "rag_ausente = \<lparr>RAG_DISPONIBLE = False, cargar_conocimiento = Inr None,
                   consultar_rag = (\<lambda>vs q. Inr [])\<rparr>"

definition rag_carga_falla :: "unit rag" where
  "rag_carga_falla = \<lparr>RAG_DISPONIBLE = True,
                       cargar_conocimiento = Inl (ErrorExterno (U ''FileNotFoundError'')),
                       consultar_rag = (\<lambda>vs q. Inr [])\<rparr>"

definition plan_ejemplo :: ustr where
  "plan_ejemplo = U ''Metotrexato 15 mg semanal y '' @ [193] @ U ''cido F'' @ [243]
     @ U ''lico 5 mg diario''"

definition plan_invertido :: ustr where
  "plan_invertido = [193] @ U ''cido F'' @ [243]
     @ U ''lico 5 mg diario y Metotrexato 15 mg semanal''"

definition pregunta_olvido :: ustr where
  "pregunta_olvido = U ''se me olvid'' @ [243] @ U '' la pinchada de metotrexato''"

definition pregunta_olvide :: ustr where
  "pregunta_olvide = U ''olvid'' @ [233] @ U '' la pinchada de metotrexato''"

definition pregunta_general :: ustr where
  "pregunta_general = U ''puedo vacunarme de la gripe''"

definition nombre_ejemplo :: ustr where
  "nombre_ejemplo = U ''Luc'' @ [237] @ U ''a''"

text \<open>The question passes the five keyword branches and reaches the knowledge lookup.\<close>

definition rama_rag :: "ustr \<Rightarrow> bool" where
  "rama_rag pregunta =
     (py_lower pregunta \<notin> set saludos
      \<and> \<not> list_ex (\<lambda>x. py_in x (py_lower pregunta)) palabras_urgencia
      \<and> \<not> list_ex (\<lambda>x. py_in x (py_lower pregunta)) palabras_olvido
      \<and> \<not> list_ex (\<lambda>x. py_in x (py_lower pregunta)) palabras_medicacion
      \<and> \<not> list_ex (\<lambda>x. py_in x (py_lower pregunta)) palabras_cita)"

section \<open>Properties of the normalizer\<close>

lemma limpiar_dict:
  "limpiar_respuesta_ia rj (RDict d) =
     (if \<not> schema_esperado d \<and> schema_plano d then reformar_plano d else JDict d)"
  by (simp add: limpiar_respuesta_ia_def normalizar_schema_def)

lemma claves_reformar: "claves_presentes (reformar_plano d)"
  by (auto simp add: claves_presentes_def reformar_plano_def get_def estado_plano_def
      analisis_plano_def auditoria_plano_def U_def)

lemma claves_respaldo: "claves_presentes (respaldo t)"
  by (simp add: claves_presentes_def respaldo_def get_def U_def)

lemma reparar_respaldo:
  assumes "\<forall>x xs. rj s \<noteq> Inr (JList (x # xs))" and "\<forall>m. rj s \<noteq> Inr (JDict m)"
  shows "reparar rj s = respaldo s"
  using assms unfolding reparar_def
  by (auto split: sum.splits json.splits list.splits)

lemma plano_ejemplo: "\<not> schema_esperado dict_plano \<and> schema_plano dict_plano"
  by (simp add: dict_plano_def schema_esperado_def schema_plano_def claves_planas_def
      tiene_def U_def)

lemma numero_sin_objeto:
  "(\<forall>x xs. repair_ejemplo (U ''1'') \<noteq> Inr (JList (x # xs)))
   \<and> (\<forall>m. repair_ejemplo (U ''1'') \<noteq> Inr (JDict m))"
  by (simp add: repair_ejemplo_def texto_json_def U_def)

lemma texto_json_dumps: "json_dumps (JDict dict_plano) = texto_json"
  by (simp add: dict_plano_def texto_json_def dumps_str_def escapar_cp_def U_def)

text \<open>
  Claim C1, as the code has it. The returned value is a dict with \<open>estado\<close>, \<open>analisis\<close>
  and \<open>auditoria\<close> present and not \<open>None\<close> for a \<open>None\<close> input, for a flat dict (a flat
  field name and none of the three top-level keys) and whenever the text yields no object
  (the fallback record). A dict that has one of the three top-level keys, or no recognised
  key at all, is returned unchanged, whatever keys it has. A dict found in the text (alone
  or first in a list) or in \<open>json_dict\<close> is treated as a dict given directly, and a found
  value that is not a dict is returned as it is.
\<close>

theorem limpiar_respuesta_ia_claves:
  "claves_presentes (limpiar_respuesta_ia rj RNone)
   \<and> (\<not> schema_esperado d \<and> schema_plano d
        \<longrightarrow> claves_presentes (limpiar_respuesta_ia rj (RDict d)))
   \<and> (schema_esperado d \<or> \<not> schema_plano d
        \<longrightarrow> limpiar_respuesta_ia rj (RDict d) = JDict d)
   \<and> (rj s = Inr (JDict m) \<or> rj s = Inr (JList (JDict m # xs))
        \<longrightarrow> limpiar_respuesta_ia rj (ROtro None None s) = limpiar_respuesta_ia rj (RDict m)
            \<and> limpiar_respuesta_ia rj (ROtro (Some s) jd s') = limpiar_respuesta_ia rj (RDict m))
   \<and> (rj s = Inr (JList (x # xs)) \<and> (\<forall>m. x \<noteq> JDict m)
        \<longrightarrow> limpiar_respuesta_ia rj (ROtro None None s) = x
            \<and> limpiar_respuesta_ia rj (ROtro (Some s) jd s') = x)
   \<and> (truthy j
        \<longrightarrow> limpiar_respuesta_ia rj (ROtro None (Some j) s')
              = (case j of JDict m \<Rightarrow> limpiar_respuesta_ia rj (RDict m) | _ \<Rightarrow> j))
   \<and> ((\<forall>x xs. rj s \<noteq> Inr (JList (x # xs))) \<and> (\<forall>m. rj s \<noteq> Inr (JDict m))
        \<longrightarrow> limpiar_respuesta_ia rj (ROtro None None s) = respaldo s
            \<and> limpiar_respuesta_ia rj (ROtro (Some s) jd s') = respaldo s
            \<and> claves_presentes (respaldo s))"
proof -
  have a: "claves_presentes (limpiar_respuesta_ia rj RNone)"
    by (simp add: limpiar_respuesta_ia_def claves_presentes_def get_def U_def)
  have b: "\<not> schema_esperado d \<and> schema_plano d
        \<longrightarrow> claves_presentes (limpiar_respuesta_ia rj (RDict d))"
    by (simp add: limpiar_dict claves_reformar)
  have c: "schema_esperado d \<or> \<not> schema_plano d
        \<longrightarrow> limpiar_respuesta_ia rj (RDict d) = JDict d"
    by (auto simp add: limpiar_dict)
  have f: "rj s = Inr (JDict m) \<or> rj s = Inr (JList (JDict m # xs))
        \<longrightarrow> limpiar_respuesta_ia rj (ROtro None None s) = limpiar_respuesta_ia rj (RDict m)
            \<and> limpiar_respuesta_ia rj (ROtro (Some s) jd s') = limpiar_respuesta_ia rj (RDict m)"
    by (auto simp add: limpiar_respuesta_ia_def reparar_def)
  have g: "rj s = Inr (JList (x # xs)) \<and> (\<forall>m. x \<noteq> JDict m)
        \<longrightarrow> limpiar_respuesta_ia rj (ROtro None None s) = x
            \<and> limpiar_respuesta_ia rj (ROtro (Some s) jd s') = x"
    by (cases x) (simp_all add: limpiar_respuesta_ia_def reparar_def normalizar_schema_def)
  have h: "truthy j
        \<longrightarrow> limpiar_respuesta_ia rj (ROtro None (Some j) s')
              = (case j of JDict m \<Rightarrow> limpiar_respuesta_ia rj (RDict m) | _ \<Rightarrow> j)"
    by (cases j) (simp_all add: limpiar_respuesta_ia_def normalizar_schema_def)
  have e: "(\<forall>x xs. rj s \<noteq> Inr (JList (x # xs))) \<and> (\<forall>m. rj s \<noteq> Inr (JDict m))
        \<longrightarrow> limpiar_respuesta_ia rj (ROtro None None s) = respaldo s
            \<and> limpiar_respuesta_ia rj (ROtro (Some s) jd s') = respaldo s
            \<and> claves_presentes (respaldo s)"
    using reparar_respaldo [of rj s]
    by (simp add: limpiar_respuesta_ia_def claves_respaldo)
  from a b c f g h e show ?thesis by blast
qed

lemma repair_ejemplo_casos:
  "repair_ejemplo texto_json = Inr (JDict dict_plano)"
  "repair_ejemplo (U ''[1, 2]'') = Inr (JList [JInt 1, JInt 2])"
  by (simp_all add: repair_ejemplo_def texto_json_def U_def)

text \<open>
  Claim C1 at concrete inputs: \<open>None\<close>, the flat dict \<open>{farmaco, es_aij}\<close> given
  directly, as JSON text and as \<open>json_dict\<close>, the dict \<open>{estado: "Aprobada"}\<close>, the text
  \<open>"[1, 2]"\<close>, whose first element is returned, and the text \<open>"1"\<close>, in which no list or
  dict is found and which gives the fallback record.
\<close>

theorem limpiar_respuesta_ia_claves_witness:
  "claves_presentes (limpiar_respuesta_ia repair_ejemplo RNone)
   \<and> claves_presentes (limpiar_respuesta_ia repair_ejemplo (RDict dict_plano))
   \<and> limpiar_respuesta_ia repair_ejemplo (RDict dict_solo_estado) = JDict dict_solo_estado
   \<and> claves_presentes (limpiar_respuesta_ia repair_ejemplo (ROtro None None texto_json))
   \<and> claves_presentes
        (limpiar_respuesta_ia repair_ejemplo (ROtro None (Some (JDict dict_plano)) []))
   \<and> limpiar_respuesta_ia repair_ejemplo (ROtro None None (U ''[1, 2]'')) = JInt 1
   \<and> limpiar_respuesta_ia repair_ejemplo (ROtro None None (U ''1'')) = respaldo (U ''1'')
   \<and> claves_presentes (respaldo (U ''1''))"
proof -
  have e: "schema_esperado dict_solo_estado"
    by (simp add: dict_solo_estado_def schema_esperado_def tiene_def U_def)
  have t: "truthy (JDict dict_plano)" by (simp add: dict_plano_def)
  have n: "\<forall>m. JInt 1 \<noteq> JDict m" by simp
  note p = limpiar_respuesta_ia_claves
    [of repair_ejemplo dict_plano texto_json dict_plano "[]" None "[]" "JInt 1" "JDict dict_plano"]
  note q = limpiar_respuesta_ia_claves
    [of repair_ejemplo dict_solo_estado "U ''[1, 2]''" dict_plano "[JInt 2]" None "[]" "JInt 1"
        "JDict dict_plano"]
  note r = limpiar_respuesta_ia_claves
    [of repair_ejemplo dict_plano "U ''1''" dict_plano "[]" None "[]" "JInt 1"
        "JDict dict_plano"]
  have 1: "claves_presentes (limpiar_respuesta_ia repair_ejemplo RNone)" using p by blast
  have 2: "claves_presentes (limpiar_respuesta_ia repair_ejemplo (RDict dict_plano))"
    using p plano_ejemplo by blast
  have 3: "limpiar_respuesta_ia repair_ejemplo (RDict dict_solo_estado) = JDict dict_solo_estado"
    using q e by blast
  have 4: "limpiar_respuesta_ia repair_ejemplo (ROtro None None texto_json)
             = limpiar_respuesta_ia repair_ejemplo (RDict dict_plano)"
    using p repair_ejemplo_casos(1) by blast
  have 5: "limpiar_respuesta_ia repair_ejemplo (ROtro None (Some (JDict dict_plano)) [])
             = limpiar_respuesta_ia repair_ejemplo (RDict dict_plano)"
    using p t by simp
  have 6: "limpiar_respuesta_ia repair_ejemplo (ROtro None None (U ''[1, 2]'')) = JInt 1"
    using q repair_ejemplo_casos(2) n by blast
  have 7: "limpiar_respuesta_ia repair_ejemplo (ROtro None None (U ''1'')) = respaldo (U ''1'')
           \<and> claves_presentes (respaldo (U ''1''))"
    using r numero_sin_objeto by blast
  from 1 2 3 4 5 6 7 show ?thesis by simp
qed

text \<open>
  Claim C1 as worded fails: the dict \<open>{estado: "Aprobada"}\<close> is returned as it is, with
  neither \<open>analisis\<close> nor \<open>auditoria\<close>.
\<close>

theorem limpiar_respuesta_ia_claves_counterexample:
  "limpiar_respuesta_ia repair_ejemplo (RDict dict_solo_estado) = JDict dict_solo_estado
   \<and> \<not> claves_presentes (limpiar_respuesta_ia repair_ejemplo (RDict dict_solo_estado))"
  by (simp add: limpiar_dict dict_solo_estado_def schema_esperado_def tiene_def
      claves_presentes_def get_def U_def)

lemma esperado_no_estado: "\<not> schema_esperado d \<Longrightarrow> get d (U ''estado'') = JNull"
  by (simp add: schema_esperado_def tiene_def get_def split: option.splits)

lemma estado_plano_derivado:
  "\<not> schema_esperado d \<Longrightarrow>
   estado_plano d = JStr (if es_aij_plano d = JBool True then U ''Aprobada'' else U ''Alerta'')"
  by (simp add: estado_plano_def esperado_no_estado)

text \<open>
  Claim C3, as the code has it. A dict with a flat field name and none of the three
  top-level keys is reshaped: \<open>analisis\<close> from the drug, dose and frequency fields,
  \<open>auditoria\<close> from the relevance and justification fields, and \<open>estado\<close> is
  \<open>"Aprobada"\<close> exactly when the relevance flag (\<open>es_aij\<close>, or \<open>es_tratamiento_aij\<close> when
  \<open>es_aij\<close> is absent or \<open>None\<close>) is \<open>True\<close>, and \<open>"Alerta"\<close> otherwise. A dict that
  carries \<open>estado\<close> is returned unchanged: nothing is built from its flat fields.
\<close>

theorem normalizar_schema_plano:
  "(\<not> schema_esperado d \<and> schema_plano d \<longrightarrow>
      limpiar_respuesta_ia rj (RDict d) = JDict
        [(U ''estado'',
            JStr (if (if get d (U ''es_aij'') = JNull then get d (U ''es_tratamiento_aij'')
                      else get d (U ''es_aij'')) = JBool True
                  then U ''Aprobada'' else U ''Alerta'')),
         (U ''analisis'', JDict
            [(U ''farmaco'', get d (U ''farmaco'')),
             (U ''dosis_calculada'', get d (U ''dosis_calculada'')),
             (U ''dosis_mg_kg_detectada'',
                get_def d (U ''dosis_mg_kg_detectada'') (get d (U ''dosis_mg_kg''))),
             (U ''frecuencia'', get_def d (U ''frecuencia'') (get d (U ''frecuencia_texto''))),
             (U ''frecuencia_horas'', get d (U ''frecuencia_horas''))]),
         (U ''auditoria'', JDict
            [(U ''es_aij'', if get d (U ''es_aij'') = JNull then get d (U ''es_tratamiento_aij'')
                            else get d (U ''es_aij'')),
             (U ''es_tratamiento_aij'', get d (U ''es_tratamiento_aij'')),
             (U ''razon'', get_def d (U ''razon'') (get d (U ''razon_decision''))),
             (U ''razon_decision'', get d (U ''razon_decision''))]),
         (U ''decision'', py_or (get d (U ''decision'')) (get d (U ''severidad'')))])
   \<and> (tiene d (U ''estado'') \<longrightarrow> limpiar_respuesta_ia rj (RDict d) = JDict d)"
proof -
  have a: "tiene d (U ''estado'') \<longrightarrow> limpiar_respuesta_ia rj (RDict d) = JDict d"
    by (simp add: limpiar_dict schema_esperado_def)
  have b: "\<not> schema_esperado d \<and> schema_plano d \<longrightarrow>
      limpiar_respuesta_ia rj (RDict d) = reformar_plano d"
    by (simp add: limpiar_dict)
  show ?thesis
    using a b
    by (simp add: reformar_plano_def estado_plano_derivado analisis_plano_def
        auditoria_plano_def es_aij_plano_def)
qed

text \<open>
  Claim C3 at concrete inputs: the flat dict \<open>{farmaco: "Metotrexato", es_aij: True}\<close>
  becomes the nested record with \<open>estado = "Aprobada"\<close>, and the same dict with
  \<open>estado: "Alerta"\<close> added comes back unchanged.
\<close>

theorem normalizar_schema_plano_witness:
  "limpiar_respuesta_ia repair_ejemplo (RDict dict_plano) = JDict dict_reformado
   \<and> limpiar_respuesta_ia repair_ejemplo (RDict dict_plano_con_estado)
       = JDict dict_plano_con_estado"
proof -
  have t: "tiene dict_plano_con_estado (U ''estado'')"
    by (simp add: dict_plano_con_estado_def tiene_def U_def)
  have a: "limpiar_respuesta_ia repair_ejemplo (RDict dict_plano_con_estado)
       = JDict dict_plano_con_estado"
    using normalizar_schema_plano [of dict_plano_con_estado repair_ejemplo] t by blast
  have b: "limpiar_respuesta_ia repair_ejemplo (RDict dict_plano) = JDict dict_reformado"
    using normalizar_schema_plano [of dict_plano repair_ejemplo] plano_ejemplo
    by (simp add: dict_plano_def dict_reformado_def get_def get_def_def py_or_def U_def)
  from a b show ?thesis by simp
qed

text \<open>
  Claim C3 as worded fails on its last clause: the flat dict that carries
  \<open>estado: "Alerta"\<close> is returned as it is, and no \<open>analisis\<close> or \<open>auditoria\<close> is built.
\<close>

theorem normalizar_schema_plano_counterexample:
  "limpiar_respuesta_ia repair_ejemplo (RDict dict_plano_con_estado)
     = JDict dict_plano_con_estado
   \<and> \<not> tiene dict_plano_con_estado (U ''analisis'')
   \<and> \<not> tiene dict_plano_con_estado (U ''auditoria'')"
  by (simp add: limpiar_dict dict_plano_con_estado_def schema_esperado_def tiene_def U_def)

lemma reformar_esperado: "reformar_plano d = JDict n \<Longrightarrow> schema_esperado n"
  by (auto simp add: reformar_plano_def schema_esperado_def tiene_def)

lemma normalizar_estable:
  "(case normalizar_schema j of None \<Rightarrow> j | Some n \<Rightarrow> n) = JDict m \<Longrightarrow>
   schema_esperado m \<or> \<not> schema_plano m"
  by (cases j) (auto simp add: normalizar_schema_def dest: reformar_esperado split: if_splits)

lemma respaldo_estable: "respaldo t = JDict m \<Longrightarrow> schema_esperado m"
  by (auto simp add: respaldo_def schema_esperado_def tiene_def)

lemma reparar_estable:
  assumes "reparar rj t = JDict m"
  shows "schema_esperado m \<or> \<not> schema_plano m"
proof (cases "rj t")
  case (Inl e)
  with assms show ?thesis by (simp add: reparar_def respaldo_estable)
next
  case (Inr v)
  show ?thesis
  proof (cases v)
    case (JList l)
    show ?thesis
    proof (cases l)
      case Nil
      with assms Inr JList show ?thesis by (simp add: reparar_def respaldo_estable)
    next
      case (Cons x xs)
      with assms Inr JList show ?thesis by (simp add: reparar_def normalizar_estable)
    qed
  next
    case (JDict d)
    with assms Inr show ?thesis by (simp add: reparar_def normalizar_estable)
  qed (use assms Inr in \<open>simp_all add: reparar_def respaldo_estable\<close>)
qed

lemma limpiar_estable:
  assumes "limpiar_respuesta_ia rj x = JDict m"
  shows "schema_esperado m \<or> \<not> schema_plano m"
proof (cases x)
  case RNone
  with assms show ?thesis
    by (auto simp add: limpiar_respuesta_ia_def schema_esperado_def tiene_def)
next
  case (RDict d)
  with assms show ?thesis by (simp add: limpiar_respuesta_ia_def normalizar_estable)
next
  case (ROtro r jd s)
  show ?thesis
  proof (cases r)
    case (Some t)
    with assms ROtro show ?thesis by (simp add: limpiar_respuesta_ia_def reparar_estable)
  next
    case None
    show ?thesis
    proof (cases jd)
      case None
      with assms ROtro \<open>r = None\<close> show ?thesis
        by (simp add: limpiar_respuesta_ia_def reparar_estable)
    next
      case (Some j)
      show ?thesis
      proof (cases "truthy j")
        case True
        with assms ROtro \<open>r = None\<close> Some show ?thesis
          by (simp add: limpiar_respuesta_ia_def normalizar_estable)
      next
        case False
        with assms ROtro \<open>r = None\<close> Some show ?thesis
          by (simp add: limpiar_respuesta_ia_def reparar_estable)
      qed
    qed
  qed
qed

text \<open>
  Claim C9, as the code has it. Whenever \<open>limpiar_respuesta_ia\<close> returns a dict, feeding
  that dict back returns it unchanged, for every input and every behaviour of
  \<open>repair_json\<close>.
\<close>

theorem limpiar_respuesta_ia_idempotente:
  "limpiar_respuesta_ia rj x = JDict m \<Longrightarrow> limpiar_respuesta_ia rj (RDict m) = JDict m"
  using limpiar_estable [of rj x m] by (auto simp add: limpiar_dict)

text \<open>
  Claim C9 at a concrete input: the record built from the flat dict
  \<open>{farmaco: "Metotrexato", es_aij: True}\<close> is returned unchanged when fed back.
\<close>

theorem limpiar_respuesta_ia_idempotente_witness:
  "limpiar_respuesta_ia repair_ejemplo (RDict dict_plano) = JDict dict_reformado
   \<and> limpiar_respuesta_ia repair_ejemplo (RDict dict_reformado) = JDict dict_reformado"
proof -
  have h: "limpiar_respuesta_ia repair_ejemplo (RDict dict_plano) = JDict dict_reformado"
    using plano_ejemplo
    by (simp add: limpiar_dict reformar_plano_def estado_plano_derivado analisis_plano_def
        auditoria_plano_def es_aij_plano_def dict_plano_def dict_reformado_def get_def
        get_def_def py_or_def U_def)
  from h limpiar_respuesta_ia_idempotente [OF h] show ?thesis by simp
qed

text \<open>
  Claim C9 as worded fails: from the text \<open>"[1, 2]"\<close> the normalizer returns the number
  \<open>1\<close> (the first element of the repaired list, which is not a dict), and from the number
  \<open>1\<close>, an object without \<open>raw\<close> or \<open>json_dict\<close> whose \<open>str()\<close> is \<open>"1"\<close>, it returns
  the fallback record.
\<close>

theorem limpiar_respuesta_ia_idempotente_counterexample:
  "limpiar_respuesta_ia repair_ejemplo (ROtro None None (U ''[1, 2]'')) = JInt 1
   \<and> limpiar_respuesta_ia repair_ejemplo (ROtro None None (str_int 1)) \<noteq> JInt 1"
  by (simp add: limpiar_respuesta_ia_def reparar_def repair_ejemplo_def texto_json_def
      normalizar_schema_def respaldo_def str_int_def U_def)

section \<open>Properties of the classifier\<close>

lemma py_startswith_iff: "py_startswith w s \<longleftrightarrow> (\<exists>b. s = w @ b)"
  by (induction w s rule: py_startswith.induct) auto

lemma py_in_iff: "py_in w s \<longleftrightarrow> (\<exists>a b. s = a @ w @ b)"
proof (induction s)
  case Nil
  show ?case by auto
next
  case (Cons c cs)
  have "(\<exists>a b. c # cs = a @ w @ b) \<longleftrightarrow> (\<exists>b. c # cs = w @ b) \<or> (\<exists>a b. cs = a @ w @ b)"
  proof
    assume "\<exists>a b. c # cs = a @ w @ b"
    then obtain a b where ab: "c # cs = a @ w @ b" by blast
    show "(\<exists>b. c # cs = w @ b) \<or> (\<exists>a b. cs = a @ w @ b)"
    proof (cases a)
      case Nil
      with ab show ?thesis by auto
    next
      case (Cons x a')
      with ab have "cs = a' @ w @ b" by simp
      then show ?thesis by blast
    qed
  next
    assume "(\<exists>b. c # cs = w @ b) \<or> (\<exists>a b. cs = a @ w @ b)"
    then show "\<exists>a b. c # cs = a @ w @ b"
    proof
      assume "\<exists>b. c # cs = w @ b"
      then obtain b where "c # cs = [] @ w @ b" by auto
      then show ?thesis by blast
    next
      assume "\<exists>a b. cs = a @ w @ b"
      then obtain a b where "c # cs = (c # a) @ w @ b" by auto
      then show ?thesis by blast
    qed
  qed
  with Cons show ?case by (simp add: py_startswith_iff)
qed

lemma py_in_rev: "py_in (rev w) (rev s) = py_in w s"
proof -
  have "(\<exists>a b. rev s = a @ rev w @ b) \<longleftrightarrow> (\<exists>a b. s = a @ w @ b)"
  proof
    assume "\<exists>a b. rev s = a @ rev w @ b"
    then obtain a b where "rev s = a @ rev w @ b" by blast
    then have "rev (rev s) = rev (a @ rev w @ b)" by simp
    then have "s = rev b @ w @ rev a" by simp
    then show "\<exists>a b. s = a @ w @ b" by blast
  next
    assume "\<exists>a b. s = a @ w @ b"
    then obtain a b where "s = a @ w @ b" by blast
    then have "rev s = rev b @ rev w @ rev a" by simp
    then show "\<exists>a b. rev s = a @ rev w @ b" by blast
  qed
  then show ?thesis by (simp add: py_in_iff)
qed

lemma py_in_dropWhile:
  "w \<noteq> [] \<Longrightarrow> \<not> P (hd w) \<Longrightarrow> py_in w (dropWhile P s) = py_in w s"
proof (induction s)
  case Nil
  show ?case by simp
next
  case (Cons c cs)
  show ?case
  proof (cases "P c")
    case True
    with Cons.prems have "\<not> py_startswith w (c # cs)" by (cases w) auto
    with True Cons show ?thesis by simp
  next
    case False
    then show ?thesis by simp
  qed
qed

lemma py_in_strip:
  assumes "w \<noteq> []" and "\<not> is_space (hd w)" and "\<not> is_space (last w)"
  shows "py_in w (py_strip s) = py_in w s"
proof -
  have r: "rev w \<noteq> []" "\<not> is_space (hd (rev w))"
    using assms by (simp_all add: hd_rev)
  have "py_in w (py_strip s) = py_in (rev w) (dropWhile is_space (rev (dropWhile is_space s)))"
    unfolding py_strip_def using py_in_rev [of "rev w" "dropWhile is_space (rev (dropWhile is_space s))"]
    by simp
  also have "\<dots> = py_in (rev w) (rev (dropWhile is_space s))"
    using r by (rule py_in_dropWhile)
  also have "\<dots> = py_in w (dropWhile is_space s)"
    by (rule py_in_rev)
  also have "\<dots> = py_in w s"
    using assms(1,2) by (rule py_in_dropWhile)
  finally show ?thesis .
qed

lemma is_space_lower: "is_space (lower_cp c) = is_space c"
  by (auto simp add: is_space_def lower_cp_def)

lemma lower_strip: "py_lower (py_strip s) = py_strip (py_lower s)"
proof -
  have d: "map lower_cp (dropWhile is_space xs) = dropWhile is_space (map lower_cp xs)" for xs
    by (induction xs) (simp_all add: is_space_lower)
  show ?thesis
    by (simp add: py_lower_def py_strip_def rev_map d [symmetric])
qed

lemma py_in_lower_strip:
  assumes "w \<noteq> []" and "\<not> is_space (hd w)" and "\<not> is_space (last w)"
  shows "py_in w (py_lower (py_strip s)) = py_in w (py_lower s)"
  using assms by (simp add: lower_strip py_in_strip)

lemma rech_falsy:
  "\<not> truthy d \<Longrightarrow> \<not> py_in (U ''rech'') (py_lower (coerce_text d []))"
  by (cases d) (simp_all add: coerce_text_def py_lower_def lower_cp_def U_def str_int_def)

text \<open>
  Claim C2. When \<open>auditoria\<close> is absent or a dict and the decision text, which is
  \<open>decision\<close> or else \<open>severidad\<close>, contains "rech" and does not contain "aprob" once
  lowercased, the verdict is \<open>Rechazada\<close>, whatever \<open>estado\<close> and the flags of
  \<open>auditoria\<close> say.
\<close>

theorem clasificar_decision_rechazada:
  assumes "get_def res (U ''auditoria'') (JDict []) = JDict aud"
      and "py_in (U ''rech'')
             (py_lower (coerce_text (py_or (get res (U ''decision'')) (get res (U ''severidad''))) []))"
      and "\<not> py_in (U ''aprob'')
             (py_lower (coerce_text (py_or (get res (U ''decision'')) (get res (U ''severidad''))) []))"
  shows "clasificar (JDict res) = Inr Rechazada"
proof -
  define d where "d = py_or (get res (U ''decision'')) (get res (U ''severidad''))"
  have t: "truthy d" using assms(2) rech_falsy [of d] by (auto simp add: d_def)
  have raw: "py_or d (get aud (U ''decision'')) = d" using t by (simp add: py_or_def)
  have dt: "decision_txt res aud = py_lower (py_strip (coerce_text d []))"
    using raw by (simp add: decision_txt_def d_def)
  have r: "py_in (U ''rech'') (decision_txt res aud)"
    using assms(2) unfolding dt d_def [symmetric]
    by (subst py_in_lower_strip) (simp_all add: U_def is_space_def)
  have a: "\<not> py_in (U ''aprob'') (decision_txt res aud)"
    using assms(3) unfolding dt d_def [symmetric]
    by (subst py_in_lower_strip) (simp_all add: U_def is_space_def)
  have "decidir res aud = Rechazada" using r a by (simp add: decidir_def)
  then show ?thesis using assms(1) by (simp add: clasificar_def)
qed

text \<open>
  Claim C2 at the record of the specification: \<open>estado = "Aprobada"\<close> with
  \<open>decision = "rechazada"\<close> is rejected.
\<close>

theorem clasificar_decision_rechazada_witness:
  "clasificar (JDict [(U ''estado'', JStr (U ''Aprobada'')), (U ''decision'', JStr (U ''rechazada''))])
     = Inr Rechazada"
proof -
  let ?res = "[(U ''estado'', JStr (U ''Aprobada'')), (U ''decision'', JStr (U ''rechazada''))]"
  have h1: "get_def ?res (U ''auditoria'') (JDict []) = JDict []"
    by (simp add: get_def_def U_def)
  have h2: "py_in (U ''rech'')
             (py_lower (coerce_text (py_or (get ?res (U ''decision'')) (get ?res (U ''severidad''))) []))"
    by (simp add: get_def py_or_def coerce_text_def py_lower_def lower_cp_def U_def)
  have h3: "\<not> py_in (U ''aprob'')
             (py_lower (coerce_text (py_or (get ?res (U ''decision'')) (get ?res (U ''severidad''))) []))"
    by (simp add: get_def py_or_def coerce_text_def py_lower_def lower_cp_def U_def)
  show ?thesis by (rule clasificar_decision_rechazada [OF h1 h2 h3])
qed

lemma texto_falsy:
  "\<not> truthy c \<Longrightarrow>
   py_lower (py_strip (coerce_text c [])) \<in> {[], U ''0'', U ''false'', U ''[]'', U ''{}''}"
  by (cases c)
     (simp_all add: coerce_text_def py_strip_def is_space_def py_lower_def lower_cp_def
        str_int_def U_def)

lemma texto_falsy_sin_palabra:
  assumes "\<not> truthy c"
  shows "\<not> py_in (U ''aprob'') (py_lower (py_strip (coerce_text c [])))"
    and "\<not> py_in (U ''rech'') (py_lower (py_strip (coerce_text c [])))"
    and "\<not> py_in (U ''alert'') (py_lower (py_strip (coerce_text c [])))"
  using texto_falsy [OF assms] by (auto simp add: U_def)

text \<open>
  Claim C4. With no decision text (\<open>decision\<close> and \<open>severidad\<close> absent, \<open>None\<close> or
  empty, and the same for a \<open>decision\<close> inside \<open>auditoria\<close>), \<open>estado\<close> other than
  \<open>"Aprobada"\<close> and neither flag \<open>True\<close>, the verdict is \<open>Rechazada\<close> exactly when the
  lowercased justification text contains one of the rejection keywords, and \<open>Alerta\<close>
  otherwise.
\<close>

theorem clasificar_sin_decision:
  assumes "get_def res (U ''auditoria'') (JDict []) = JDict aud"
      and "\<not> truthy (get res (U ''decision''))" and "\<not> truthy (get res (U ''severidad''))"
      and "\<not> truthy (get aud (U ''decision''))"
      and "get res (U ''estado'') \<noteq> JStr (U ''Aprobada'')"
      and "get aud (U ''es_tratamiento_aij'') \<noteq> JBool True"
      and "get aud (U ''es_aij'') \<noteq> JBool True"
  shows "clasificar (JDict res) =
           Inr (if list_ex (\<lambda>p. py_in p (py_lower (razon_texto_de res aud))) palabras_rechazo
                then Rechazada else Alerta)"
proof -
  have t: "decision_txt res aud
             = py_lower (py_strip (coerce_text (get aud (U ''decision'')) []))"
    using assms(2,3) by (simp add: decision_txt_def py_or_def)
  have e: "get_def res (U ''estado'') (JStr (U ''Desconocido'')) \<noteq> JStr (U ''Aprobada'')"
    using assms(5) by (simp add: get_def_def get_def U_def split: option.splits)
  have v: "\<not> es_valido res aud"
    using e assms(6,7) by (simp add: es_valido_def)
  have "decidir res aud =
          (if list_ex (\<lambda>p. py_in p (py_lower (razon_texto_de res aud))) palabras_rechazo
           then Rechazada else Alerta)"
    using texto_falsy_sin_palabra [OF assms(4)]
    by (simp add: decidir_def t v es_rechazo_por_texto_def)
  then show ?thesis using assms(1) by (simp add: clasificar_def)
qed

text \<open>
  Claim C4 at the record of the specification: \<open>estado = "Alerta"\<close>, \<open>es_aij = None\<close>
  and \<open>razon = "dosis excesiva detectada"\<close> give \<open>Rechazada\<close>.
\<close>

theorem clasificar_sin_decision_witness:
  "clasificar (JDict [(U ''estado'', JStr (U ''Alerta'')),
                      (U ''auditoria'', JDict [(U ''es_aij'', JNull),
                         (U ''razon'', JStr (U ''dosis excesiva detectada''))])])
     = Inr Rechazada"
proof -
  let ?aud = "[(U ''es_aij'', JNull), (U ''razon'', JStr (U ''dosis excesiva detectada''))]"
  let ?res = "[(U ''estado'', JStr (U ''Alerta'')), (U ''auditoria'', JDict ?aud)]"
  have h1: "get_def ?res (U ''auditoria'') (JDict []) = JDict ?aud"
    by (simp add: get_def_def U_def)
  have h2: "\<not> truthy (get ?res (U ''decision''))" "\<not> truthy (get ?res (U ''severidad''))"
           "\<not> truthy (get ?aud (U ''decision''))"
    by (simp_all add: get_def U_def)
  have h3: "get ?res (U ''estado'') \<noteq> JStr (U ''Aprobada'')"
           "get ?aud (U ''es_tratamiento_aij'') \<noteq> JBool True"
           "get ?aud (U ''es_aij'') \<noteq> JBool True"
    by (simp_all add: get_def U_def)
  have k: "list_ex (\<lambda>p. py_in p (py_lower (razon_texto_de ?res ?aud))) palabras_rechazo"
    by code_simp
  show ?thesis
    using clasificar_sin_decision [OF h1 h2 h3] k by simp
qed

lemma decision_txt_vacio:
  assumes "get n (U ''decision'') = JNull" and "get n (U ''severidad'') = JNull"
      and "get a (U ''decision'') = JNull"
  shows "decision_txt n a = []"
  using assms
  by (simp add: decision_txt_def py_or_def coerce_text_def py_strip_def py_lower_def)

lemma reformar_aprobada:
  assumes "get d (U ''decision'') = JNull" and "get d (U ''severidad'') = JNull"
      and "get d (U ''es_tratamiento_aij'') = JBool True"
  shows "clasificar (reformar_plano d) = Inr Aprobada"
proof -
  define n where "n = [(U ''estado'', estado_plano d), (U ''analisis'', analisis_plano d),
    (U ''auditoria'', auditoria_plano d),
    (U ''decision'', py_or (get d (U ''decision'')) (get d (U ''severidad'')))]"
  define a where "a = [(U ''es_aij'', es_aij_plano d),
    (U ''es_tratamiento_aij'', get d (U ''es_tratamiento_aij'')),
    (U ''razon'', get_def d (U ''razon'') (get d (U ''razon_decision''))),
    (U ''razon_decision'', get d (U ''razon_decision''))]"
  have r: "reformar_plano d = JDict n" by (simp add: reformar_plano_def n_def)
  have aud: "get_def n (U ''auditoria'') (JDict []) = JDict a"
    by (simp add: n_def a_def get_def_def auditoria_plano_def U_def)
  have t: "decision_txt n a = []"
    using assms(1,2)
    by (intro decision_txt_vacio) (simp_all add: n_def a_def get_def py_or_def U_def)
  have v: "es_valido n a"
    using assms(3) by (simp add: es_valido_def a_def get_def U_def)
  have "decidir n a = Aprobada"
    by (simp add: decidir_def t v U_def)
  then show ?thesis by (simp add: r clasificar_def aud)
qed

text \<open>
  Claim C10. For a flat dict (none of the three top-level keys) without \<open>decision\<close> or
  \<open>severidad\<close> whose \<open>es_tratamiento_aij\<close> is \<open>True\<close>: when \<open>es_aij\<close> is \<open>False\<close> the
  normalizer sets \<open>estado = "Alerta"\<close> and the classifier on the result still answers
  \<open>Aprobada\<close>; when \<open>es_aij\<close> is absent or \<open>None\<close>, \<open>es_tratamiento_aij\<close> is consulted
  and \<open>estado\<close> is \<open>"Aprobada"\<close>.
\<close>

theorem plano_alerta_aprobada:
  assumes "\<not> schema_esperado d"
      and "\<not> tiene d (U ''decision'')" and "\<not> tiene d (U ''severidad'')"
      and "map_of d (U ''es_tratamiento_aij'') = Some (JBool True)"
  shows "(map_of d (U ''es_aij'') = Some (JBool False) \<longrightarrow>
            campo (limpiar_respuesta_ia rj (RDict d)) (U ''estado'') = JStr (U ''Alerta'')
            \<and> clasificar (limpiar_respuesta_ia rj (RDict d)) = Inr Aprobada)
       \<and> (get d (U ''es_aij'') = JNull \<longrightarrow>
            campo (limpiar_respuesta_ia rj (RDict d)) (U ''estado'') = JStr (U ''Aprobada''))"
proof -
  have plano: "schema_plano d"
    using assms(4) by (simp add: schema_plano_def claves_planas_def tiene_def)
  have lim: "limpiar_respuesta_ia rj (RDict d) = reformar_plano d"
    using assms(1) plano by (simp add: limpiar_dict)
  have dec: "get d (U ''decision'') = JNull" "get d (U ''severidad'') = JNull"
    using assms(2,3) by (simp_all add: tiene_def get_def)
  have trat: "get d (U ''es_tratamiento_aij'') = JBool True"
    using assms(4) by (simp add: get_def)
  have est: "campo (reformar_plano d) (U ''estado'') =
               JStr (if es_aij_plano d = JBool True then U ''Aprobada'' else U ''Alerta'')"
    using assms(1) by (simp add: campo_def reformar_plano_def get_def estado_plano_derivado)
  have cl: "clasificar (reformar_plano d) = Inr Aprobada"
    using dec trat by (rule reformar_aprobada)
  have f: "map_of d (U ''es_aij'') = Some (JBool False) \<longrightarrow> es_aij_plano d = JBool False"
    by (simp add: es_aij_plano_def get_def)
  have g: "get d (U ''es_aij'') = JNull \<longrightarrow> es_aij_plano d = JBool True"
    using trat by (simp add: es_aij_plano_def)
  from f g show ?thesis by (simp add: lim est cl)
qed

text \<open>
  Claim C10 at concrete inputs: \<open>{es_aij: False, es_tratamiento_aij: True}\<close> and
  \<open>{es_tratamiento_aij: True}\<close>.
\<close>

theorem plano_alerta_aprobada_witness:
  "campo (limpiar_respuesta_ia repair_ejemplo (RDict dict_aij_falso)) (U ''estado'')
     = JStr (U ''Alerta'')
   \<and> clasificar (limpiar_respuesta_ia repair_ejemplo (RDict dict_aij_falso)) = Inr Aprobada
   \<and> campo (limpiar_respuesta_ia repair_ejemplo (RDict dict_aij_ausente)) (U ''estado'')
     = JStr (U ''Aprobada'')"
proof -
  have a: "\<not> schema_esperado dict_aij_falso" "\<not> tiene dict_aij_falso (U ''decision'')"
      "\<not> tiene dict_aij_falso (U ''severidad'')"
      "map_of dict_aij_falso (U ''es_tratamiento_aij'') = Some (JBool True)"
      "map_of dict_aij_falso (U ''es_aij'') = Some (JBool False)"
    by (simp_all add: dict_aij_falso_def schema_esperado_def tiene_def U_def)
  have b: "\<not> schema_esperado dict_aij_ausente" "\<not> tiene dict_aij_ausente (U ''decision'')"
      "\<not> tiene dict_aij_ausente (U ''severidad'')"
      "map_of dict_aij_ausente (U ''es_tratamiento_aij'') = Some (JBool True)"
      "get dict_aij_ausente (U ''es_aij'') = JNull"
    by (simp_all add: dict_aij_ausente_def schema_esperado_def tiene_def get_def U_def)
  show ?thesis
    using plano_alerta_aprobada [OF a(1-4), of repair_ejemplo] a(5)
      plano_alerta_aprobada [OF b(1-4), of repair_ejemplo] b(5)
    by blast
qed

section \<open>Properties of the extractor\<close>

lemma paso_medicamento_none:
  "find (\<lambda>variante. py_in variante t) vs = None \<Longrightarrow> paso_medicamento t ms (n, vs, e) = ms"
  by (simp add: paso_medicamento_def)

lemma paso_medicamento_some:
  "find (\<lambda>variante. py_in variante t) vs = Some v \<Longrightarrow>
   paso_medicamento t ms (n, vs, e) =
     (if med_str_de e n (dosis_de v t) (frecuencia_de (contexto_de v t)) \<in> set ms then ms
      else ms @ [med_str_de e n (dosis_de v t) (frecuencia_de (contexto_de v t))])"
  by (simp add: paso_medicamento_def)


lemma variante_ejemplo_1:
  "find (\<lambda>variante. py_in variante (py_lower plan_ejemplo))
     [U ''metotrexato'', U ''metotrexate'', U ''mtx''] = Some (U ''metotrexato'')"
  by code_simp

lemma variante_ejemplo_2:
  "find (\<lambda>variante. py_in variante (py_lower plan_ejemplo))
     [[225] @ U ''cido f'' @ [243] @ U ''lico'', U ''acido folico'', U ''ac f'' @ [243] @ U ''lico'', U ''ac folico'', U ''acfol''] = Some ([225] @ U ''cido f'' @ [243] @ U ''lico'')"
  by code_simp

lemma variante_ejemplo_3:
  "find (\<lambda>variante. py_in variante (py_lower plan_ejemplo))
     [U ''ibuprofeno'', U ''ibuprofen''] = None"
  by code_simp

lemma variante_ejemplo_4:
  "find (\<lambda>variante. py_in variante (py_lower plan_ejemplo))
     [U ''naproxeno''] = None"
  by code_simp

lemma variante_ejemplo_5:
  "find (\<lambda>variante. py_in variante (py_lower plan_ejemplo))
     [U ''prednisona'', U ''prednisone'', U ''corticoide''] = None"
  by code_simp

lemma variante_ejemplo_6:
  "find (\<lambda>variante. py_in variante (py_lower plan_ejemplo))
     [U ''adalimumab'', U ''humira''] = None"
  by code_simp

lemma variante_ejemplo_7:
  "find (\<lambda>variante. py_in variante (py_lower plan_ejemplo))
     [U ''tocilizumab'', U ''actemra''] = None"
  by code_simp

lemma variante_ejemplo_8:
  "find (\<lambda>variante. py_in variante (py_lower plan_ejemplo))
     [U ''etanercept'', U ''enbrel''] = None"
  by code_simp

lemma dosis_ejemplo_1:
  "dosis_de (U ''metotrexato'') (py_lower plan_ejemplo) = U ''15 mg''"
  by code_simp

lemma frecuencia_ejemplo_1:
  "frecuencia_de (contexto_de (U ''metotrexato'') (py_lower plan_ejemplo)) = U ''semanal''"
  by code_simp

lemma dosis_ejemplo_2:
  "dosis_de ([225] @ U ''cido f'' @ [243] @ U ''lico'') (py_lower plan_ejemplo) = U ''5 mg''"
  by code_simp

lemma frecuencia_ejemplo_2:
  "frecuencia_de (contexto_de ([225] @ U ''cido f'' @ [243] @ U ''lico'') (py_lower plan_ejemplo)) = U ''diario''"
  by code_simp

lemma paso_ejemplo_1:
  "paso_medicamento (py_lower plan_ejemplo)
     []
     (U ''Metotrexato'',
        [U ''metotrexato'', U ''metotrexate'', U ''mtx''], [128137]) =
     [[128137] @ U '' **Metotrexato** 15 mg (semanal)'']"
  using paso_medicamento_some [OF variante_ejemplo_1] dosis_ejemplo_1 frecuencia_ejemplo_1
  by (simp add: med_str_de_def U_def)

lemma paso_ejemplo_2:
  "paso_medicamento (py_lower plan_ejemplo)
     [[128137] @ U '' **Metotrexato** 15 mg (semanal)'']
     ([193] @ U ''cido F'' @ [243] @ U ''lico'',
        [[225] @ U ''cido f'' @ [243] @ U ''lico'', U ''acido folico'', U ''ac f'' @ [243] @ U ''lico'', U ''ac folico'', U ''acfol''], [128138]) =
     [[128137] @ U '' **Metotrexato** 15 mg (semanal)'',
      [128138] @ U '' **'' @ [193] @ U ''cido F'' @ [243] @ U ''lico** 5 mg (diario)'']"
  using paso_medicamento_some [OF variante_ejemplo_2] dosis_ejemplo_2 frecuencia_ejemplo_2
  by (simp add: med_str_de_def U_def)

lemma paso_ejemplo_3:
  "paso_medicamento (py_lower plan_ejemplo) ms
     (U ''Ibuprofeno'',
        [U ''ibuprofeno'', U ''ibuprofen''], [128138]) = ms"
  by (rule paso_medicamento_none [OF variante_ejemplo_3])

lemma paso_ejemplo_4:
  "paso_medicamento (py_lower plan_ejemplo) ms
     (U ''Naproxeno'',
        [U ''naproxeno''], [128138]) = ms"
  by (rule paso_medicamento_none [OF variante_ejemplo_4])

lemma paso_ejemplo_5:
  "paso_medicamento (py_lower plan_ejemplo) ms
     (U ''Prednisona'',
        [U ''prednisona'', U ''prednisone'', U ''corticoide''], [128138]) = ms"
  by (rule paso_medicamento_none [OF variante_ejemplo_5])

lemma paso_ejemplo_6:
  "paso_medicamento (py_lower plan_ejemplo) ms
     (U ''Adalimumab (Humira)'',
        [U ''adalimumab'', U ''humira''], [128137]) = ms"
  by (rule paso_medicamento_none [OF variante_ejemplo_6])

lemma paso_ejemplo_7:
  "paso_medicamento (py_lower plan_ejemplo) ms
     (U ''Tocilizumab'',
        [U ''tocilizumab'', U ''actemra''], [128137]) = ms"
  by (rule paso_medicamento_none [OF variante_ejemplo_7])

lemma paso_ejemplo_8:
  "paso_medicamento (py_lower plan_ejemplo) ms
     (U ''Etanercept'',
        [U ''etanercept'', U ''enbrel''], [128137]) = ms"
  by (rule paso_medicamento_none [OF variante_ejemplo_8])

lemma medicaciones_ejemplo:
  "foldl (paso_medicamento (py_lower plan_ejemplo)) [] medicamentos_info =
     [[128137] @ U '' **Metotrexato** 15 mg (semanal)'',
      [128138] @ U '' **'' @ [193] @ U ''cido F'' @ [243] @ U ''lico** 5 mg (diario)'']"
  unfolding medicamentos_info_def
  by (simp only: foldl.simps paso_ejemplo_1 paso_ejemplo_2 paso_ejemplo_3 paso_ejemplo_4 paso_ejemplo_5 paso_ejemplo_6 paso_ejemplo_7 paso_ejemplo_8)

lemma variante_invertido_1:
  "find (\<lambda>variante. py_in variante (py_lower plan_invertido))
     [U ''metotrexato'', U ''metotrexate'', U ''mtx''] = Some (U ''metotrexato'')"
  by code_simp

lemma variante_invertido_2:
  "find (\<lambda>variante. py_in variante (py_lower plan_invertido))
     [[225] @ U ''cido f'' @ [243] @ U ''lico'', U ''acido folico'', U ''ac f'' @ [243] @ U ''lico'', U ''ac folico'', U ''acfol''] = Some ([225] @ U ''cido f'' @ [243] @ U ''lico'')"
  by code_simp

lemma variante_invertido_3:
  "find (\<lambda>variante. py_in variante (py_lower plan_invertido))
     [U ''ibuprofeno'', U ''ibuprofen''] = None"
  by code_simp

lemma variante_invertido_4:
  "find (\<lambda>variante. py_in variante (py_lower plan_invertido))
     [U ''naproxeno''] = None"
  by code_simp

lemma variante_invertido_5:
  "find (\<lambda>variante. py_in variante (py_lower plan_invertido))
     [U ''prednisona'', U ''prednisone'', U ''corticoide''] = None"
  by code_simp

lemma variante_invertido_6:
  "find (\<lambda>variante. py_in variante (py_lower plan_invertido))
     [U ''adalimumab'', U ''humira''] = None"
  by code_simp

lemma variante_invertido_7:
  "find (\<lambda>variante. py_in variante (py_lower plan_invertido))
     [U ''tocilizumab'', U ''actemra''] = None"
  by code_simp

lemma variante_invertido_8:
  "find (\<lambda>variante. py_in variante (py_lower plan_invertido))
     [U ''etanercept'', U ''enbrel''] = None"
  by code_simp

lemma dosis_invertido_1:
  "dosis_de (U ''metotrexato'') (py_lower plan_invertido) = U ''15 mg''"
  by code_simp

lemma frecuencia_invertido_1:
  "frecuencia_de (contexto_de (U ''metotrexato'') (py_lower plan_invertido)) = U ''semanal''"
  by code_simp

lemma dosis_invertido_2:
  "dosis_de ([225] @ U ''cido f'' @ [243] @ U ''lico'') (py_lower plan_invertido) = U ''5 mg''"
  by code_simp

lemma frecuencia_invertido_2:
  "frecuencia_de (contexto_de ([225] @ U ''cido f'' @ [243] @ U ''lico'') (py_lower plan_invertido)) = U ''semanal''"
  by code_simp

lemma paso_invertido_1:
  "paso_medicamento (py_lower plan_invertido)
     []
     (U ''Metotrexato'',
        [U ''metotrexato'', U ''metotrexate'', U ''mtx''], [128137]) =
     [[128137] @ U '' **Metotrexato** 15 mg (semanal)'']"
  using paso_medicamento_some [OF variante_invertido_1] dosis_invertido_1 frecuencia_invertido_1
  by (simp add: med_str_de_def U_def)

lemma paso_invertido_2:
  "paso_medicamento (py_lower plan_invertido)
     [[128137] @ U '' **Metotrexato** 15 mg (semanal)'']
     ([193] @ U ''cido F'' @ [243] @ U ''lico'',
        [[225] @ U ''cido f'' @ [243] @ U ''lico'', U ''acido folico'', U ''ac f'' @ [243] @ U ''lico'', U ''ac folico'', U ''acfol''], [128138]) =
     [[128137] @ U '' **Metotrexato** 15 mg (semanal)'',
      [128138] @ U '' **'' @ [193] @ U ''cido F'' @ [243] @ U ''lico** 5 mg (semanal)'']"
  using paso_medicamento_some [OF variante_invertido_2] dosis_invertido_2 frecuencia_invertido_2
  by (simp add: med_str_de_def U_def)

lemma paso_invertido_3:
  "paso_medicamento (py_lower plan_invertido) ms
     (U ''Ibuprofeno'',
        [U ''ibuprofeno'', U ''ibuprofen''], [128138]) = ms"
  by (rule paso_medicamento_none [OF variante_invertido_3])

lemma paso_invertido_4:
  "paso_medicamento (py_lower plan_invertido) ms
     (U ''Naproxeno'',
        [U ''naproxeno''], [128138]) = ms"
  by (rule paso_medicamento_none [OF variante_invertido_4])

lemma paso_invertido_5:
  "paso_medicamento (py_lower plan_invertido) ms
     (U ''Prednisona'',
        [U ''prednisona'', U ''prednisone'', U ''corticoide''], [128138]) = ms"
  by (rule paso_medicamento_none [OF variante_invertido_5])

lemma paso_invertido_6:
  "paso_medicamento (py_lower plan_invertido) ms
     (U ''Adalimumab (Humira)'',
        [U ''adalimumab'', U ''humira''], [128137]) = ms"
  by (rule paso_medicamento_none [OF variante_invertido_6])

lemma paso_invertido_7:
  "paso_medicamento (py_lower plan_invertido) ms
     (U ''Tocilizumab'',
        [U ''tocilizumab'', U ''actemra''], [128137]) = ms"
  by (rule paso_medicamento_none [OF variante_invertido_7])

lemma paso_invertido_8:
  "paso_medicamento (py_lower plan_invertido) ms
     (U ''Etanercept'',
        [U ''etanercept'', U ''enbrel''], [128137]) = ms"
  by (rule paso_medicamento_none [OF variante_invertido_8])

lemma medicaciones_invertido:
  "foldl (paso_medicamento (py_lower plan_invertido)) [] medicamentos_info =
     [[128137] @ U '' **Metotrexato** 15 mg (semanal)'',
      [128138] @ U '' **'' @ [193] @ U ''cido F'' @ [243] @ U ''lico** 5 mg (semanal)'']"
  unfolding medicamentos_info_def
  by (simp only: foldl.simps paso_invertido_1 paso_invertido_2 paso_invertido_3 paso_invertido_4 paso_invertido_5 paso_invertido_6 paso_invertido_7 paso_invertido_8)

text \<open>
  Claim C8. From \<open>"Metotrexato 15 mg semanal y Acido Folico 5 mg diario"\<close> (with its
  accents) the extractor returns exactly two lines, Metotrexato with 15 mg and "semanal",
  then Acido Folico with 5 mg and "diario". The order is that of the table: with the two
  drugs swapped in the text, Metotrexato still comes first.
\<close>

theorem extraer_medicaciones_ejemplo:
  "extraer_medicaciones_del_plan plan_ejemplo =
     Some [[128137] @ U '' **Metotrexato** 15 mg (semanal)'',
           [128138] @ U '' **'' @ [193] @ U ''cido F'' @ [243] @ U ''lico** 5 mg (diario)'']
   \<and> extraer_medicaciones_del_plan plan_invertido =
     Some [[128137] @ U '' **Metotrexato** 15 mg (semanal)'',
           [128138] @ U '' **'' @ [193] @ U ''cido F'' @ [243] @ U ''lico** 5 mg (semanal)'']"
proof -
  have a: "plan_ejemplo \<noteq> []" "plan_invertido \<noteq> []"
    by (simp_all add: plan_ejemplo_def plan_invertido_def U_def)
  show ?thesis
    using a by (simp add: extraer_medicaciones_del_plan_def medicaciones_ejemplo
        medicaciones_invertido)
qed

section \<open>Properties of the responder\<close>

lemma rama_rag_responder:
  "rama_rag pregunta \<Longrightarrow>
   responder_duda_paciente r c pregunta h n = consulta_rag r c pregunta"
  by (simp add: rama_rag_def responder_duda_paciente_def)

lemma rama_rag_olvido: "rama_rag pregunta_olvido"
  unfolding rama_rag_def by code_simp

lemma rama_rag_general: "rama_rag pregunta_general"
  unfolding rama_rag_def by code_simp

lemma rama_rag_hola: "rama_rag (U '' hola '')"
  unfolding rama_rag_def by code_simp

lemma hd_saludo: "hd (saludo n) = 161"
  by (simp add: saludo_def saludo_pre_def)

lemma hd_textos:
  "hd texto_urgencia = 9888" "hd texto_olvido_metotrexato = 9888"
  "hd texto_olvido_folico = 128138" "hd texto_olvido_humira = 128137"
  "hd texto_olvido_generico = 9888" "hd (texto_medicacion_pre @ x) = 128138"
  "hd (texto_plan_pre @ y) = 128203" "hd texto_sin_plan = 128203"
  "hd texto_cita = 128197" "hd (texto_rag_pre @ z) = 128218" "hd texto_fallback = 10067"
  by (simp_all add: texto_urgencia_def texto_olvido_metotrexato_def texto_olvido_folico_def
      texto_olvido_humira_def texto_olvido_generico_def texto_medicacion_pre_def
      texto_plan_pre_def texto_sin_plan_def texto_cita_def texto_rag_pre_def
      texto_fallback_def)

lemma no_saludo_olvido: "respuesta_olvido p \<noteq> saludo n"
proof
  assume "respuesta_olvido p = saludo n"
  then have "hd (respuesta_olvido p) = 161" by (simp add: hd_saludo)
  then show False by (simp add: respuesta_olvido_def hd_textos split: if_splits)
qed

lemma no_saludo_medicacion: "respuesta_medicacion h \<noteq> Inr (saludo n)"
proof
  assume a: "respuesta_medicacion h = Inr (saludo n)"
  then obtain t where t: "respuesta_medicacion h = Inr t" "hd t = 161"
    by (simp add: hd_saludo)
  then show False
    by (auto simp add: respuesta_medicacion_def hd_textos
        split: sum.splits if_splits json.splits option.splits)
qed

lemma no_saludo_final: "final_de x \<noteq> saludo n"
proof
  assume "final_de x = saludo n"
  then have "hd (final_de x) = 161" by (simp add: hd_saludo)
  then show False by (simp add: final_de_def hd_textos split: if_splits)
qed

lemma no_saludo_rag: "fst (consulta_rag r c q) \<noteq> Inr (saludo n)"
proof
  assume a: "fst (consulta_rag r c q) = Inr (saludo n)"
  have "hd texto_fallback \<noteq> hd (saludo n)" by (simp add: hd_textos hd_saludo)
  then have f: "texto_fallback \<noteq> saludo n" by auto
  from a show False
    by (auto simp add: consulta_rag_def no_saludo_final f
        split: if_splits option.splits sum.splits)
qed

lemma no_saludo_otros:
  assumes "py_lower q \<notin> set saludos"
  shows "fst (responder_duda_paciente r c q h n) \<noteq> Inr (saludo n)"
proof -
  have u: "texto_urgencia \<noteq> saludo n" "texto_cita \<noteq> saludo n"
    using hd_saludo [of n] hd_textos(1,9) by auto
  show ?thesis
    using assms u
    by (simp add: responder_duda_paciente_def Let_def no_saludo_olvido no_saludo_medicacion
        no_saludo_rag)
qed

text \<open>
  Claim C7, as the code has it. The greeting is returned, and the cache left as it was,
  when the lowercased question is one of the six greeting phrases; for every other
  question, also one that differs from a phrase only by surrounding spaces, the answer is
  not the greeting.
\<close>

theorem responder_saludo:
  "(py_lower pregunta \<in> set saludos \<longrightarrow>
      responder_duda_paciente r c pregunta h n = (Inr (saludo n), c))
   \<and> (py_lower pregunta \<notin> set saludos \<longrightarrow>
      fst (responder_duda_paciente r c pregunta h n) \<noteq> Inr (saludo n))"
  using no_saludo_otros [of pregunta r c h n]
  by (simp add: responder_duda_paciente_def saludo_def)

text \<open>Claim C7 at the question \<open>"hola"\<close> with an empty history.\<close>

theorem responder_saludo_witness:
  "responder_duda_paciente rag_ausente None (U ''hola'') [] nombre_ejemplo
     = (Inr (saludo nombre_ejemplo), None)"
proof -
  have "py_lower (U ''hola'') \<in> set saludos" by code_simp
  then show ?thesis
    using responder_saludo [of "U ''hola''" rag_ausente None "[]" nombre_ejemplo] by simp
qed

text \<open>
  Claim C7 as worded fails: \<open>" hola "\<close> trimmed and lowercased is a greeting phrase, and
  the responder answers with the final fallback.
\<close>

theorem responder_saludo_counterexample:
  "py_strip (py_lower (U '' hola '')) \<in> set saludos
   \<and> responder_duda_paciente rag_ausente None (U '' hola '') [] nombre_ejemplo
       = (Inr texto_fallback, None)
   \<and> texto_fallback \<noteq> saludo nombre_ejemplo"
proof -
  have a: "py_strip (py_lower (U '' hola '')) \<in> set saludos" by code_simp
  have b: "responder_duda_paciente rag_ausente None (U '' hola '') [] nombre_ejemplo
       = (Inr texto_fallback, None)"
    by (simp add: rama_rag_responder [OF rama_rag_hola] consulta_rag_def rag_ausente_def)
  have "hd texto_fallback \<noteq> hd (saludo nombre_ejemplo)" by (simp add: hd_textos hd_saludo)
  then have c: "texto_fallback \<noteq> saludo nombre_ejemplo" by auto
  from a b c show ?thesis by simp
qed

text \<open>
  Claim C6 as worded fails: the question \<open>pregunta_olvido\<close> ("se me olvido la pinchada de
  metotrexato", the last o of "olvido" accented) contains none of the missed-dose phrasings, and without a knowledge store the answer is the final
  fallback, not the methotrexate protocol.
\<close>

theorem responder_olvido_counterexample:
  "responder_duda_paciente rag_ausente None pregunta_olvido [] nombre_ejemplo
     = (Inr texto_fallback, None)
   \<and> texto_fallback \<noteq> texto_olvido_metotrexato"
proof -
  have b: "responder_duda_paciente rag_ausente None pregunta_olvido [] nombre_ejemplo
       = (Inr texto_fallback, None)"
    by (simp add: rama_rag_responder [OF rama_rag_olvido] consulta_rag_def rag_ausente_def)
  have "hd texto_fallback \<noteq> hd texto_olvido_metotrexato" by (simp add: hd_textos)
  then have c: "texto_fallback \<noteq> texto_olvido_metotrexato" by auto
  from b c show ?thesis by simp
qed

text \<open>
  Claim C6, as the code has it. A question that is not a greeting, has no urgency
  keyword, contains one of the missed-dose phrasings and names methotrexate gets the
  methotrexate protocol text, for every history, name and state of the knowledge lookup.
\<close>

theorem responder_olvido_metotrexato:
  assumes "py_lower pregunta \<notin> set saludos"
      and "\<not> list_ex (\<lambda>x. py_in x (py_lower pregunta)) palabras_urgencia"
      and "list_ex (\<lambda>x. py_in x (py_lower pregunta)) palabras_olvido"
      and "list_ex (\<lambda>x. py_in x (py_lower pregunta)) variantes_metotrexato"
  shows "responder_duda_paciente r c pregunta h n = (Inr texto_olvido_metotrexato, c)"
  using assms by (simp add: responder_duda_paciente_def respuesta_olvido_def)

text \<open>Claim C6 at the question \<open>pregunta_olvide\<close> ("olvide la pinchada de metotrexato",
  the e of "olvide" accented).\<close>

theorem responder_olvido_metotrexato_witness:
  "responder_duda_paciente rag_ausente None pregunta_olvide [] nombre_ejemplo
     = (Inr texto_olvido_metotrexato, None)"
proof -
  have h1: "py_lower pregunta_olvide \<notin> set saludos" by code_simp
  have h2: "\<not> list_ex (\<lambda>x. py_in x (py_lower pregunta_olvide)) palabras_urgencia"
    by code_simp
  have h3: "list_ex (\<lambda>x. py_in x (py_lower pregunta_olvide)) palabras_olvido" by code_simp
  have h4: "list_ex (\<lambda>x. py_in x (py_lower pregunta_olvide)) variantes_metotrexato"
    by code_simp
  show ?thesis by (rule responder_olvido_metotrexato [OF h1 h2 h3 h4])
qed

text \<open>
  Whatever the knowledge lookup does, the answer to \<open>pregunta_olvido\<close> is not the
  methotrexate protocol: it is an exception, the lookup's answer behind its heading, or
  the final fallback.
\<close>

lemma responder_olvido_nunca:
  "fst (responder_duda_paciente r c pregunta_olvido h n) \<noteq> Inr texto_olvido_metotrexato"
proof
  assume a: "fst (responder_duda_paciente r c pregunta_olvido h n) = Inr texto_olvido_metotrexato"
  have f: "final_de x \<noteq> texto_olvido_metotrexato" for x
  proof
    assume "final_de x = texto_olvido_metotrexato"
    then have "hd (final_de x) = 9888" by (simp add: hd_textos)
    then show False by (simp add: final_de_def hd_textos split: if_splits)
  qed
  have "hd texto_fallback \<noteq> hd texto_olvido_metotrexato" by (simp add: hd_textos)
  then have g: "texto_fallback \<noteq> texto_olvido_metotrexato" by auto
  from a show False
    by (auto simp add: rama_rag_responder [OF rama_rag_olvido] consulta_rag_def f g
        split: if_splits option.splits sum.splits)
qed

text \<open>
  An exception of the query itself is caught and gives the final fallback, as do an
  answer that contains \<open>NO_CONTEXT\<close> and an answer of fewer than six characters.
\<close>

lemma consulta_rag_contenida:
  "consultar_rag r vs pregunta = Inl e \<Longrightarrow>
   consulta_rag r (Some vs) pregunta = (Inr texto_fallback, Some vs)"
  by (simp add: consulta_rag_def respuesta_rag_de_def final_de_def)

lemma consulta_rag_sin_respuesta:
  "consultar_rag r vs pregunta = Inr raw_response \<Longrightarrow>
   py_in (U ''NO_CONTEXT'') raw_response \<or> length raw_response < 6 \<Longrightarrow>
   consulta_rag r (Some vs) pregunta = (Inr texto_fallback, Some vs)"
  by (auto simp add: consulta_rag_def respuesta_rag_de_def final_de_def)

text \<open>
  Claim C5 does not hold for the loading of the store: when the question reaches the
  lookup, the import succeeded, the cache is empty and \<open>cargar_conocimiento()\<close> raises,
  the responder raises the same exception.
\<close>

theorem responder_carga_propaga:
  assumes "rama_rag pregunta"
      and "RAG_DISPONIBLE r" and "cargar_conocimiento r = Inl e"
  shows "responder_duda_paciente r None pregunta h n = (Inl e, None)"
  using assms by (simp add: rama_rag_responder consulta_rag_def)

text \<open>Claim C5 at the question \<open>"puedo vacunarme de la gripe"\<close> with a store that
  cannot be loaded.\<close>

theorem responder_carga_propaga_witness:
  "responder_duda_paciente rag_carga_falla None pregunta_general [] nombre_ejemplo
     = (Inl (ErrorExterno (U ''FileNotFoundError'')), None)"
proof -
  have h2: "RAG_DISPONIBLE rag_carga_falla" by (simp add: rag_carga_falla_def)
  have h3: "cargar_conocimiento rag_carga_falla = Inl (ErrorExterno (U ''FileNotFoundError''))"
    by (simp add: rag_carga_falla_def)
  show ?thesis by (rule responder_carga_propaga [OF rama_rag_general h2 h3])
qed


end
